theory Spec2Isabelle
  imports Complex_Main "HOL-Library.Multiset"
begin

section \<open>Values shared by the model, the loss combiner and the metrics suite\<close>

text \<open>
  Exceptions of the Python runtime and of the tensor libraries are values of
  \<open>py_error\<close>; a function that can raise returns \<open>py_error + 'a\<close> with \<open>Inl\<close> for the
  exception.
\<close>

datatype py_error =
  KeyError | IndexError | ZeroDivisionError | ValueError | RuntimeError

text \<open>
  A Python or tensor float is a real number or one of the three special IEEE values. Rounding
  and overflow are not represented: arithmetic on \<open>Fin\<close> values is exact. The special values
  are produced exactly where the source produces them without rounding: \<open>float("inf")\<close>,
  \<open>float("-inf")\<close>, a mean over no elements, a division of zero by zero.
\<close>

datatype fl = Fin real | PInf | NInf | NaN

text \<open>IEEE comparison \<open><\<close>: every comparison with NaN is false.\<close>

fun fl_less :: "fl \<Rightarrow> fl \<Rightarrow> bool" where
  "fl_less (Fin a) (Fin b) = (a < b)"
| "fl_less (Fin a) PInf = True"
| "fl_less NInf (Fin b) = True"
| "fl_less NInf PInf = True"
| "fl_less _ _ = False"

definition fl_greater :: "fl \<Rightarrow> fl \<Rightarrow> bool" where
  "fl_greater a b = fl_less b a"

text \<open>IEEE addition and multiplication (exact on finite values).\<close>

fun fl_add :: "fl \<Rightarrow> fl \<Rightarrow> fl" where
  "fl_add (Fin a) (Fin b) = Fin (a + b)"
| "fl_add NaN _ = NaN"
| "fl_add _ NaN = NaN"
| "fl_add PInf NInf = NaN"
| "fl_add NInf PInf = NaN"
| "fl_add PInf _ = PInf"
| "fl_add _ PInf = PInf"
| "fl_add NInf _ = NInf"
| "fl_add _ NInf = NInf"

fun fl_scale :: "real \<Rightarrow> fl \<Rightarrow> fl" where
  "fl_scale w (Fin a) = Fin (w * a)"
| "fl_scale w NaN = NaN"
| "fl_scale w PInf = (if w = 0 then NaN else if 0 < w then PInf else NInf)"
| "fl_scale w NInf = (if w = 0 then NaN else if 0 < w then NInf else PInf)"

text \<open>
  A Python \<open>dict\<close> with string keys is an association list in insertion order with each key
  at most once. \<open>dict_get d k dflt\<close> is \<open>d.get(k, dflt)\<close>, \<open>dict_set\<close> is \<open>d[k] = v\<close>
  (an existing key keeps its position) and \<open>dict_update d e\<close> is \<open>d.update(e)\<close>.
\<close>

type_synonym 'v dict = "(string \<times> 'v) list"

definition dict_get :: "'v dict \<Rightarrow> string \<Rightarrow> 'v \<Rightarrow> 'v" where
  "dict_get d k dflt = (case map_of d k of None \<Rightarrow> dflt | Some v \<Rightarrow> v)"

fun dict_set :: "'v dict \<Rightarrow> string \<Rightarrow> 'v \<Rightarrow> 'v dict" where
  "dict_set [] k v = [(k, v)]"
| "dict_set ((k', v') # d) k v = (if k' = k then (k, v) # d else (k', v') # dict_set d k v)"

definition dict_update :: "'v dict \<Rightarrow> 'v dict \<Rightarrow> 'v dict" where
  "dict_update d e = fold (\<lambda>(k, v) acc. dict_set acc k v) e d"

text \<open>Sequencing of calls that can raise: the first exception ends the computation.\<close>

definition bind_err :: "py_error + 'a \<Rightarrow> ('a \<Rightarrow> py_error + 'b) \<Rightarrow> py_error + 'b" where
  "bind_err m f = (case m of Inl e \<Rightarrow> Inl e | Inr x \<Rightarrow> f x)"

fun fl_mul :: "fl \<Rightarrow> fl \<Rightarrow> fl" where
  "fl_mul (Fin a) y = fl_scale a y"
| "fl_mul x (Fin b) = fl_scale b x"
| "fl_mul NaN _ = NaN"
| "fl_mul _ NaN = NaN"
| "fl_mul PInf PInf = PInf"
| "fl_mul NInf NInf = PInf"
| "fl_mul PInf NInf = NInf"
| "fl_mul NInf PInf = NInf"

definition fl_sum :: "fl list \<Rightarrow> fl" where
  "fl_sum xs = foldl fl_add (Fin 0) xs"

text \<open>The mean of a tensor of floats: NaN when it has no element.\<close>

definition fl_mean :: "fl list \<Rightarrow> fl" where
  "fl_mean xs = (if xs = [] then NaN else fl_scale (1 / real (length xs)) (fl_sum xs))"

text \<open>
  A two-dimensional tensor (or array) of shape \<open>(length rows, ncols)\<close>. The column count is
  kept beside the rows because the source reads it from the shape also when there is no row.
  Every tensor the source can build satisfies \<open>wf_tensor2\<close>.
\<close>

datatype tensor2 = Tensor2 (ncols: nat) (rows: "real list list")

definition wf_tensor2 :: "tensor2 \<Rightarrow> bool" where
  "wf_tensor2 t = list_all (\<lambda>r. length r = ncols t) (rows t)"

definition shape :: "tensor2 \<Rightarrow> nat \<times> nat" where
  "shape t = (length (rows t), ncols t)"

text \<open>\<open>torch.mean\<close> and \<open>torch.std\<close> (Bessel's correction) of one row; NaN where the
  library divides zero by zero.\<close>

definition torch_mean :: "real list \<Rightarrow> fl" where
  "torch_mean xs = (if xs = [] then NaN else Fin (sum_list xs / real (length xs)))"

definition torch_std :: "real list \<Rightarrow> fl" where
  "torch_std xs =
     (if length xs \<le> 1 then NaN
      else Fin (sqrt ((\<Sum>x\<leftarrow>xs. (x - sum_list xs / real (length xs))\<^sup>2) / real (length xs - 1))))"

text \<open>
  \<open>F.mse_loss\<close> with the default mean reduction, on two tensors of the same shape. On
  tensors of different shapes the library broadcasts when it can (with a warning) and raises
  otherwise; both are outside the shapes the source documents, and the model gives the
  exception for all of them.
\<close>

definition mse_loss :: "tensor2 \<Rightarrow> tensor2 \<Rightarrow> py_error + fl" where
  "mse_loss input target =
     (if shape input \<noteq> shape target then Inl RuntimeError
      else Inr (torch_mean (map2 (\<lambda>a b. (a - b)\<^sup>2) (concat (rows input)) (concat (rows target)))))"

text \<open>
  \<open>torch.argsort(x, descending=True)\<close>: the indices of \<open>x\<close> from the largest value to the
  smallest. The library leaves the order of equal values open; the model keeps them in index
  order.
\<close>

definition argsort_desc :: "real list \<Rightarrow> nat list" where
  "argsort_desc xs = map snd (sort_key (\<lambda>(v, i). - v) (zip xs [0..<length xs]))"

text \<open>\<open>str.replace(old, new)\<close>: every occurrence of \<open>old\<close>, left to right, without
  overlaps. The counter skips the characters of the occurrence just replaced.\<close>

fun replace_from :: "string \<Rightarrow> string \<Rightarrow> nat \<Rightarrow> string \<Rightarrow> string" where
  "replace_from old new k [] = []"
| "replace_from old new (Suc k) (c # cs) = replace_from old new k cs"
| "replace_from old new 0 (c # cs) =
     (if take (length old) (c # cs) = old
      then new @ replace_from old new (length old - 1) cs
      else c # replace_from old new 0 cs)"

definition str_replace :: "string \<Rightarrow> string \<Rightarrow> string \<Rightarrow> string" where
  "str_replace s old new =
     (if old = [] then new @ concat (map (\<lambda>c. c # new) s) else replace_from old new 0 s)"

section \<open>lightning\_module.py: the multi-task loss combiner\<close>

text \<open>
  The part of \<open>FinancialLightningModule\<close> the loss functions read. \<open>__init__\<close> sets
  \<open>self.loss_weights = loss_weights or {...}\<close>: the default dict replaces \<open>None\<close> and the
  empty dict.
\<close>

record FinancialLightningModule =
  loss_weights :: "real dict"

definition default_loss_weights :: "real dict" where
  "default_loss_weights =
     [(''recommendation'', 1.0), (''confidence'', 0.3), (''risk'', 0.2), (''regime'', 0.1)]"

definition init_module :: "real dict option \<Rightarrow> FinancialLightningModule" where
  "init_module lw =
     \<lparr>loss_weights = (case lw of None \<Rightarrow> default_loss_weights
                      | Some d \<Rightarrow> if d = [] then default_loss_weights else d)\<rparr>"

text \<open>
  One pass of the loop in \<open>_calculate_recommendation_loss\<close>: the value added to
  \<open>ranking_loss\<close> for a sample with prediction row \<open>p\<close> and target row \<open>t\<close>. The variables
  \<open>pred_ranks\<close> and \<open>target_ranks\<close> hold what \<open>torch.argsort\<close> returns. For \<open>n \<le> 1\<close> the
  denominator is the integer 0 and the tensor division gives NaN.
\<close>

definition ranking_term :: "real list \<Rightarrow> real list \<Rightarrow> fl" where
  "ranking_term p t =
     (let pred_ranks = argsort_desc p;
          target_ranks = argsort_desc t;
          n = int (length pred_ranks);
          d_squared = (\<Sum>(a, b)\<leftarrow>zip pred_ranks target_ranks. (real a - real b)\<^sup>2)
      in if n * (n\<^sup>2 - 1) = 0 then NaN
         else Fin (1 - (1 - (6 * d_squared) / real_of_int (n * (n\<^sup>2 - 1)))))"

text \<open>
  \<open>_calculate_recommendation_loss(predictions, targets, confidence)\<close>. With an empty batch
  \<open>ranking_loss\<close> is still the Python float 0.0 and the division by \<open>batch_size\<close> raises.
\<close>

definition calculate_recommendation_loss ::
    "tensor2 \<Rightarrow> tensor2 \<Rightarrow> tensor2 option \<Rightarrow> py_error + fl" where
  "calculate_recommendation_loss predictions targets confidence =
     bind_err (mse_loss predictions targets) (\<lambda>mse.
       let batch_size = length (rows predictions);
           ranking_sum = fl_sum (map2 ranking_term (rows predictions) (rows targets))
       in if batch_size = 0 then Inl ZeroDivisionError
          else
            let ranking_loss = fl_scale (1 / real batch_size) ranking_sum;
                total_loss = fl_add mse (fl_scale 0.1 ranking_loss)
            in case confidence of
                 None \<Rightarrow> Inr total_loss
               | Some c \<Rightarrow>
                   Inr (fl_mul total_loss
                          (torch_mean (map (\<lambda>x. 1.0 + 0.5 * x) (concat (rows c))))))"

text \<open>
  \<open>_calculate_confidence_loss\<close>: the target confidence of a sample is
  \<open>1 / (1 + mean |prediction - target|)\<close>; the loss is the mean squared error between the
  \<open>[batch_size, 1]\<close> confidence tensor and it.
\<close>

definition fl_sq_diff :: "real \<Rightarrow> fl \<Rightarrow> fl" where
  "fl_sq_diff a y = (case y of Fin b \<Rightarrow> Fin ((a - b)\<^sup>2) | NaN \<Rightarrow> NaN | _ \<Rightarrow> PInf)"

definition calculate_confidence_loss :: "tensor2 \<Rightarrow> tensor2 \<Rightarrow> tensor2 \<Rightarrow> py_error + fl" where
  "calculate_confidence_loss confidence predictions targets =
     (if shape predictions \<noteq> shape targets then Inl RuntimeError
      else
        let errors = map2 (\<lambda>p t. torch_mean (map2 (\<lambda>a b. \<bar>a - b\<bar>) p t))
                       (rows predictions) (rows targets);
            target_confidence =
              map (\<lambda>e. case e of Fin x \<Rightarrow> Fin (1.0 / (1.0 + x)) | _ \<Rightarrow> NaN) errors
        in if shape confidence \<noteq> (length (rows predictions), 1) then Inl RuntimeError
           else Inr (fl_mean (map2 fl_sq_diff (concat (rows confidence)) target_confidence)))"

text \<open>
  \<open>_calculate_risk_loss\<close>: mean squared error between the sum of a sample's risk scores
  and the standard deviation of its target row.
\<close>

definition calculate_risk_loss :: "tensor2 \<Rightarrow> tensor2 \<Rightarrow> py_error + fl" where
  "calculate_risk_loss risk_scores targets =
     (let target_volatility = map torch_std (rows targets);
          predicted_risk = map sum_list (rows risk_scores)
      in if length predicted_risk \<noteq> length target_volatility then Inl RuntimeError
         else Inr (fl_mean (map2 fl_sq_diff predicted_risk target_volatility)))"

text \<open>
  The regime labels that \<open>_calculate_regime_loss\<close> infers from the targets: a tensor of
  zeros, then three masked assignments in the order of the source.
\<close>

definition masked_assign :: "nat list \<Rightarrow> bool list \<Rightarrow> nat \<Rightarrow> nat list" where
  "masked_assign lbls msk v = map2 (\<lambda>l m. if m then v else l) lbls msk"

definition bull_cond :: "real list \<Rightarrow> bool" where
  "bull_cond t = (fl_greater (torch_mean t) (Fin 0.001) \<and> fl_less (torch_std t) (Fin 0.03))"

definition bear_cond :: "real list \<Rightarrow> bool" where
  "bear_cond t = (fl_less (torch_mean t) (Fin (- 0.001)) \<and> fl_greater (torch_std t) (Fin 0.02))"

definition regime_labels :: "tensor2 \<Rightarrow> nat list" where
  "regime_labels targets =
     (let labels0 = replicate (length (rows targets)) 0;
          bull_mask = map bull_cond (rows targets);
          labels1 = masked_assign labels0 bull_mask 0;
          bear_mask = map bear_cond (rows targets);
          labels2 = masked_assign labels1 bear_mask 1;
          sideways_mask = map2 (\<lambda>b r. \<not> (b \<or> r)) bull_mask bear_mask
      in masked_assign labels2 sideways_mask 2)"

text \<open>
  \<open>F.cross_entropy(input, target)\<close> with class indices: the mean over the batch of
  \<open>- log_softmax(input[i])[target[i]]\<close>. The source passes the regime probabilities as
  \<open>input\<close>, so the softmax is applied a second time.
\<close>

definition log_softmax_at :: "real list \<Rightarrow> nat \<Rightarrow> real" where
  "log_softmax_at xs c = xs ! c - ln (\<Sum>x\<leftarrow>xs. exp x)"

definition cross_entropy :: "tensor2 \<Rightarrow> nat list \<Rightarrow> py_error + fl" where
  "cross_entropy input target =
     (if length (rows input) \<noteq> length target then Inl ValueError
      else if \<not> list_all (\<lambda>c. c < ncols input) target then Inl IndexError
      else Inr (torch_mean (map2 (\<lambda>xs c. - log_softmax_at xs c) (rows input) target)))"

definition calculate_regime_loss :: "tensor2 \<Rightarrow> tensor2 \<Rightarrow> py_error + fl" where
  "calculate_regime_loss regime_probs targets = cross_entropy regime_probs (regime_labels targets)"

text \<open>
  The loop at the end of \<open>_compute_total_loss\<close>: for every entry of \<open>losses\<close>, in
  insertion order, the weight is looked up under the loss name without \<open>_loss\<close>, with 1.0
  for a missing key.
\<close>

definition weighted_total :: "real dict \<Rightarrow> fl dict \<Rightarrow> fl" where
  "weighted_total weights losses =
     fold (\<lambda>(loss_name, loss_value) total_loss.
             fl_add total_loss
               (fl_scale (dict_get weights (str_replace loss_name ''_loss'' []) 1.0) loss_value))
          losses (Fin 0)"

text \<open>
  \<open>_compute_total_loss(model_outputs, targets)\<close>. The model outputs are a dict of tensors;
  \<open>model_outputs["recommendations"]\<close> raises \<open>KeyError\<close> when the key is missing, the other
  three heads are optional.
\<close>

definition optional_loss ::
    "tensor2 dict \<Rightarrow> string \<Rightarrow> string \<Rightarrow> (tensor2 \<Rightarrow> py_error + fl) \<Rightarrow> fl dict \<Rightarrow> py_error + fl dict" where
  "optional_loss model_outputs key loss_name f losses =
     (case map_of model_outputs key of
        None \<Rightarrow> Inr losses
      | Some t \<Rightarrow> bind_err (f t) (\<lambda>l. Inr (dict_set losses loss_name l)))"

definition compute_total_loss ::
    "FinancialLightningModule \<Rightarrow> tensor2 dict \<Rightarrow> tensor2 \<Rightarrow> py_error + fl dict" where
  "compute_total_loss self model_outputs targets =
     (case map_of model_outputs ''recommendations'' of
        None \<Rightarrow> Inl KeyError
      | Some recs \<Rightarrow>
          bind_err (calculate_recommendation_loss recs targets (map_of model_outputs ''confidence''))
            (\<lambda>rec_loss.
          bind_err (optional_loss model_outputs ''confidence'' ''confidence_loss''
                      (\<lambda>c. calculate_confidence_loss c recs targets)
                      [(''recommendation_loss'', rec_loss)]) (\<lambda>losses1.
          bind_err (optional_loss model_outputs ''risk_scores'' ''risk_loss''
                      (\<lambda>r. calculate_risk_loss r targets) losses1) (\<lambda>losses2.
          bind_err (optional_loss model_outputs ''regime_probs'' ''regime_loss''
                      (\<lambda>g. calculate_regime_loss g targets) losses2) (\<lambda>losses3.
          Inr (dict_set losses3 ''total_loss'' (weighted_total (loss_weights self) losses3)))))))"

text \<open>
  The statistic that the specification describes for the ranking term, written from its
  words: the rank of every asset (0 for the largest value) in the prediction row and in the
  target row, and \<open>1 - \<rho>\<close> for \<open>\<rho> = 1 - 6 \<Sum>(rank_pred - rank_target)\<^sup>2 / (n (n\<^sup>2 - 1))\<close>.
\<close>

definition rank_desc :: "real list \<Rightarrow> nat list" where
  "rank_desc xs = map (\<lambda>i. length (filter (\<lambda>x. x > xs ! i) xs)) [0..<length xs]"

definition spec_ranking_term :: "real list \<Rightarrow> real list \<Rightarrow> real" where
  "spec_ranking_term p t =
     (let n = real (length p);
          d_squared = (\<Sum>(a, b)\<leftarrow>zip (rank_desc p) (rank_desc t). (real a - real b)\<^sup>2)
      in 1 - (1 - 6 * d_squared / (n * (n\<^sup>2 - 1))))"

section \<open>transformer\_model.py: the scoring model\<close>

text \<open>
  A three-dimensional tensor of shape \<open>(length items, seq_len, width)\<close>: one list of
  time steps per sample, one feature vector per time step. The two inner sizes are kept
  beside the data because the source reads them from the shape also when a dimension is
  empty.
\<close>

datatype tensor3 = Tensor3 (seq_len: nat) (width: nat) (items: "real list list list")

definition wf_tensor3 :: "tensor3 \<Rightarrow> bool" where
  "wf_tensor3 t =
     list_all (\<lambda>item. length item = seq_len t \<and> list_all (\<lambda>x. length x = width t) item) (items t)"

text \<open>
  \<open>nn.Dropout(p)\<close>. In evaluation mode (\<open>None\<close>) it is the identity. In training mode the
  elements to keep are sampled; the sample is an argument of the model: \<open>keep\<close> tells for
  every dropout site and element position whether the element survives, and the survivors
  are scaled by \<open>1 / (1 - p)\<close>.
\<close>

type_synonym mode = "(nat list \<Rightarrow> bool) option"

definition dropout :: "real \<Rightarrow> mode \<Rightarrow> nat list \<Rightarrow> real list \<Rightarrow> real list" where
  "dropout p tr site x =
     (case tr of
        None \<Rightarrow> x
      | Some keep \<Rightarrow> map (\<lambda>(i, v). if keep (site @ [i]) then v / (1 - p) else 0) (enumerate 0 x))"

definition relu :: "real \<Rightarrow> real" where
  "relu v = max 0 v"

text \<open>\<open>nn.Linear(in_features, out_features)\<close> with its weight matrix (one row per output)
  and bias.\<close>

record Linear =
  in_features :: nat
  out_features :: nat
  weight :: "real list list"
  bias :: "real list"

definition wf_Linear :: "Linear \<Rightarrow> bool" where
  "wf_Linear l =
     (length (weight l) = out_features l \<and> length (bias l) = out_features l \<and>
      list_all (\<lambda>r. length r = in_features l) (weight l))"

definition linear_vec :: "Linear \<Rightarrow> real list \<Rightarrow> real list" where
  "linear_vec l x = map2 (\<lambda>w b. (\<Sum>(a, v)\<leftarrow>zip w x. a * v) + b) (weight l) (bias l)"

text \<open>
  The two-layer projection \<open>nn.Sequential(Linear, ReLU, Dropout(p), Linear)\<close> that the
  feature encoders and the four heads share, on one feature vector and on the rows of a
  tensor. The matrix product raises \<open>RuntimeError\<close> when the last dimension of the input
  is not \<open>in_features\<close>.
\<close>

record Sequential2 =
  fc1 :: Linear
  p_drop :: real
  fc2 :: Linear

definition wf_Sequential2 :: "Sequential2 \<Rightarrow> nat \<Rightarrow> nat \<Rightarrow> nat \<Rightarrow> bool" where
  "wf_Sequential2 m n_in n_hidden n_out =
     (wf_Linear (fc1 m) \<and> wf_Linear (fc2 m) \<and>
      in_features (fc1 m) = n_in \<and> out_features (fc1 m) = n_hidden \<and>
      in_features (fc2 m) = n_hidden \<and> out_features (fc2 m) = n_out)"

definition sequential_vec :: "Sequential2 \<Rightarrow> mode \<Rightarrow> nat list \<Rightarrow> real list \<Rightarrow> real list" where
  "sequential_vec m tr site x =
     linear_vec (fc2 m) (dropout (p_drop m) tr site (map relu (linear_vec (fc1 m) x)))"

definition sequential_rows ::
    "Sequential2 \<Rightarrow> mode \<Rightarrow> nat list \<Rightarrow> real list list \<Rightarrow> real list list" where
  "sequential_rows m tr site xs =
     map (\<lambda>(i, x). sequential_vec m tr (site @ [i]) x) (enumerate 0 xs)"

definition sequential2 :: "Sequential2 \<Rightarrow> mode \<Rightarrow> nat list \<Rightarrow> tensor2 \<Rightarrow> py_error + tensor2" where
  "sequential2 m tr site t =
     (if ncols t \<noteq> in_features (fc1 m) \<or> out_features (fc1 m) \<noteq> in_features (fc2 m)
      then Inl RuntimeError
      else Inr (Tensor2 (out_features (fc2 m)) (sequential_rows m tr site (rows t))))"

definition sequential3 :: "Sequential2 \<Rightarrow> mode \<Rightarrow> nat list \<Rightarrow> tensor3 \<Rightarrow> py_error + tensor3" where
  "sequential3 m tr site t =
     (if width t \<noteq> in_features (fc1 m) \<or> out_features (fc1 m) \<noteq> in_features (fc2 m)
      then Inl RuntimeError
      else Inr (Tensor3 (seq_len t) (out_features (fc2 m))
                  (map (\<lambda>(b, item). sequential_rows m tr (site @ [b]) item) (enumerate 0 (items t)))))"

text \<open>
  \<open>FinancialFeatureEncoder\<close>: four projections, concatenation along the feature axis
  (\<open>torch.cat\<close> raises when the batch or time dimensions differ) and the fusion layer
  \<open>Sequential(Linear, ReLU, Dropout(0.1))\<close>.
\<close>

record FinancialFeatureEncoder =
  price_encoder :: Sequential2
  volume_encoder :: Sequential2
  technical_encoder :: Sequential2
  fundamental_encoder :: Sequential2
  fusion_layer :: Linear

definition cat4 :: "tensor3 \<Rightarrow> tensor3 \<Rightarrow> tensor3 \<Rightarrow> tensor3 \<Rightarrow> py_error + tensor3" where
  "cat4 a b c d =
     (if \<not> (length (items a) = length (items b) \<and> length (items b) = length (items c) \<and>
             length (items c) = length (items d) \<and>
             seq_len a = seq_len b \<and> seq_len b = seq_len c \<and> seq_len c = seq_len d)
      then Inl RuntimeError
      else Inr (Tensor3 (seq_len a) (width a + width b + width c + width d)
                  (map (\<lambda>i. map (\<lambda>t. items a ! i ! t @ items b ! i ! t @ items c ! i ! t @ items d ! i ! t)
                                [0..<seq_len a])
                       [0..<length (items a)])))"

definition fusion :: "Linear \<Rightarrow> mode \<Rightarrow> nat list \<Rightarrow> tensor3 \<Rightarrow> py_error + tensor3" where
  "fusion l tr site t =
     (if width t \<noteq> in_features l then Inl RuntimeError
      else Inr (Tensor3 (seq_len t) (out_features l)
                  (map (\<lambda>(b, item).
                          map (\<lambda>(i, x). dropout 0.1 tr (site @ [b, i]) (map relu (linear_vec l x)))
                              (enumerate 0 item))
                       (enumerate 0 (items t)))))"

definition feature_encoder_forward ::
    "FinancialFeatureEncoder \<Rightarrow> mode \<Rightarrow> tensor3 \<Rightarrow> tensor3 \<Rightarrow> tensor3 \<Rightarrow> tensor3 \<Rightarrow> py_error + tensor3" where
  "feature_encoder_forward enc tr price_data volume_data technical_data fundamental_data =
     bind_err (sequential3 (price_encoder enc) tr [0] price_data) (\<lambda>price_emb.
     bind_err (sequential3 (volume_encoder enc) tr [1] volume_data) (\<lambda>volume_emb.
     bind_err (sequential3 (technical_encoder enc) tr [2] technical_data) (\<lambda>tech_emb.
     bind_err (sequential3 (fundamental_encoder enc) tr [3] fundamental_data) (\<lambda>fund_emb.
     bind_err (cat4 price_emb volume_emb tech_emb fund_emb) (\<lambda>combined_features.
     fusion (fusion_layer enc) tr [4] combined_features)))))"

text \<open>
  \<open>PositionalEncoding\<close>. The buffer \<open>pe\<close> has shape \<open>(max_len, 1, d_model)\<close> with sine in
  the even and cosine in the odd feature indices; \<open>forward\<close> adds \<open>pe[:x.size(0)]\<close>, so with
  the batch-first input of this model the row of \<open>pe\<close> is chosen by the sample index and
  added to every time step. More than \<open>max_len\<close> samples cannot be broadcast.
\<close>

record PositionalEncoding =
  pe_d_model :: nat
  pe_dropout :: real
  max_len :: nat

definition pe_entry :: "nat \<Rightarrow> nat \<Rightarrow> nat \<Rightarrow> real" where
  "pe_entry d pos j =
     (if even j then sin (real pos * exp (real j * (- ln 10000 / real d)))
      else cos (real pos * exp (real (j - 1) * (- ln 10000 / real d))))"

definition positional_encoding_forward ::
    "PositionalEncoding \<Rightarrow> mode \<Rightarrow> nat list \<Rightarrow> tensor3 \<Rightarrow> py_error + tensor3" where
  "positional_encoding_forward pe tr site x =
     (if length (items x) > max_len pe \<or> width x \<noteq> pe_d_model pe then Inl RuntimeError
      else Inr (Tensor3 (seq_len x) (width x)
                  (map (\<lambda>(b, item).
                          map (\<lambda>(i, v). dropout (pe_dropout pe) tr (site @ [b, i])
                                          (map (\<lambda>(j, a). a + pe_entry (pe_d_model pe) b j) (enumerate 0 v)))
                              (enumerate 0 item))
                       (enumerate 0 (items x)))))"

text \<open>\<open>F.softmax(x, dim=-1)\<close> on one row and \<open>torch.sigmoid\<close>.\<close>

definition softmax :: "real list \<Rightarrow> real list" where
  "softmax xs = map (\<lambda>x. exp x / (\<Sum>y\<leftarrow>xs. exp y)) xs"

definition sigmoid :: "real \<Rightarrow> real" where
  "sigmoid x = 1 / (1 + exp (- x))"

definition map_rows :: "(real list \<Rightarrow> real list) \<Rightarrow> tensor2 \<Rightarrow> tensor2" where
  "map_rows f t = Tensor2 (ncols t) (map f (rows t))"

text \<open>
  \<open>RiskAwareRecommendationHead\<close>. The field \<open>recommendation_layers\<close> is the attribute
  \<open>recommendation_head\<close> of the source class (the engine has an attribute of the same name
  for the whole head). \<open>forward\<close> returns the dict of the five output tensors.
\<close>

record RiskAwareRecommendationHead =
  head_d_model :: nat
  head_num_assets :: nat
  num_risk_factors :: nat
  recommendation_layers :: Sequential2
  confidence_head :: Sequential2
  risk_head :: Sequential2
  regime_head :: Sequential2

text \<open>The shapes that \<open>__init__\<close> gives the four projections.\<close>

definition wf_head :: "RiskAwareRecommendationHead \<Rightarrow> bool" where
  "wf_head h =
     (wf_Sequential2 (recommendation_layers h) (head_d_model h) (head_d_model h div 2) (head_num_assets h) \<and>
      wf_Sequential2 (confidence_head h) (head_d_model h) (head_d_model h div 4) 1 \<and>
      wf_Sequential2 (risk_head h) (head_d_model h) (head_d_model h div 4) (num_risk_factors h) \<and>
      wf_Sequential2 (regime_head h) (head_d_model h) (head_d_model h div 4) 3)"

definition head_forward ::
    "RiskAwareRecommendationHead \<Rightarrow> mode \<Rightarrow> tensor2 \<Rightarrow> py_error + tensor2 dict" where
  "head_forward h tr x =
     bind_err (sequential2 (recommendation_layers h) tr [6] x) (\<lambda>raw_recommendations.
     let recommendations = map_rows softmax raw_recommendations in
     bind_err (sequential2 (confidence_head h) tr [7] x) (\<lambda>conf_logit.
     let confidence = map_rows (map sigmoid) conf_logit in
     bind_err (sequential2 (risk_head h) tr [8] x) (\<lambda>risk_logits.
     let risk_scores = map_rows softmax risk_logits in
     bind_err (sequential2 (regime_head h) tr [9] x) (\<lambda>regime_logits.
     let regime_probs = map_rows softmax regime_logits in
     Inr [(''recommendations'', recommendations),
          (''confidence'', confidence),
          (''risk_scores'', risk_scores),
          (''regime_probs'', regime_probs),
          (''raw_logits'', raw_recommendations)]))))"

text \<open>
  \<open>create_attention_mask(sequence_length, device)\<close>: the strictly upper triangle of a square
  matrix of ones, filled with minus infinity; zero elsewhere.
\<close>

definition create_attention_mask :: "nat \<Rightarrow> fl list list" where
  "create_attention_mask sequence_length =
     map (\<lambda>i. map (\<lambda>j. if j > i then NInf else Fin 0) [0..<sequence_length]) [0..<sequence_length]"

text \<open>
  \<open>FinancialTransformerRecommendationEngine\<close>. The encoder stack \<open>nn.TransformerEncoder\<close>
  belongs to the tensor library and holds trained weights; it is a field of function type
  that takes the embedded sequence and the mask and returns a tensor or raises.
\<close>

record FinancialTransformerRecommendationEngine =
  d_model :: nat
  num_assets :: nat
  sequence_length :: nat
  feature_encoder :: FinancialFeatureEncoder
  positional_encoding :: PositionalEncoding
  transformer_encoder :: "tensor3 \<Rightarrow> fl list list \<Rightarrow> py_error + tensor3"
  recommendation_head :: RiskAwareRecommendationHead

text \<open>\<open>transformer_output[:, -1, :]\<close>: \<open>IndexError\<close> when the time dimension is empty.\<close>

definition last_time_step :: "tensor3 \<Rightarrow> py_error + tensor2" where
  "last_time_step t =
     (if seq_len t = 0 then Inl IndexError else Inr (Tensor2 (width t) (map last (items t))))"

text \<open>
  \<open>forward\<close>, with the statements of the source in their order. \<open>forward_run\<close> also records
  which statements were started, so that the place of a failure is part of the result.
  The flag \<open>return_attention\<close> only adds the entry \<open>attention_weights = None\<close> and is left
  out.
\<close>

datatype stage =
  At_feature_encoder | At_positional_encoding | At_create_attention_mask
  | At_transformer_encoder | At_last_time_step | At_recommendation_head

definition forward_run ::
    "FinancialTransformerRecommendationEngine \<Rightarrow> mode \<Rightarrow> tensor3 \<Rightarrow> tensor3 \<Rightarrow> tensor3 \<Rightarrow> tensor3
       \<Rightarrow> stage list \<times> (py_error + tensor2 dict)" where
  "forward_run self tr price_data volume_data technical_data fundamental_data =
     (let seq_len = seq_len price_data in
      case feature_encoder_forward (feature_encoder self) tr
             price_data volume_data technical_data fundamental_data of
        Inl e \<Rightarrow> ([At_feature_encoder], Inl e)
      | Inr encoded_features \<Rightarrow>
     (case positional_encoding_forward (positional_encoding self) tr [5] encoded_features of
        Inl e \<Rightarrow> ([At_feature_encoder, At_positional_encoding], Inl e)
      | Inr src \<Rightarrow>
     (let attention_mask = create_attention_mask seq_len in
      case transformer_encoder self src attention_mask of
        Inl e \<Rightarrow> ([At_feature_encoder, At_positional_encoding, At_create_attention_mask,
                   At_transformer_encoder], Inl e)
      | Inr transformer_output \<Rightarrow>
     (case last_time_step transformer_output of
        Inl e \<Rightarrow> ([At_feature_encoder, At_positional_encoding, At_create_attention_mask,
                   At_transformer_encoder, At_last_time_step], Inl e)
      | Inr final_representation \<Rightarrow>
          ([At_feature_encoder, At_positional_encoding, At_create_attention_mask,
            At_transformer_encoder, At_last_time_step, At_recommendation_head],
           head_forward (recommendation_head self) tr final_representation)))))"

definition forward ::
    "FinancialTransformerRecommendationEngine \<Rightarrow> mode \<Rightarrow> tensor3 \<Rightarrow> tensor3 \<Rightarrow> tensor3 \<Rightarrow> tensor3
       \<Rightarrow> py_error + tensor2 dict" where
  "forward self tr price_data volume_data technical_data fundamental_data =
     snd (forward_run self tr price_data volume_data technical_data fundamental_data)"

text \<open>
  \<open>torch.topk(input, k, dim=-1)\<close>: the \<open>k\<close> largest entries of every row, largest first,
  with their indices; \<open>RuntimeError\<close> when \<open>k\<close> is negative or above the row size. The order
  among equal values is not specified by the library; the model takes index order.
\<close>

definition topk :: "tensor2 \<Rightarrow> int \<Rightarrow> py_error + (real list list \<times> nat list list)" where
  "topk t k =
     (if k < 0 \<or> int (ncols t) < k then Inl RuntimeError
      else Inr (map (\<lambda>r. map (\<lambda>i. r ! i) (take (nat k) (argsort_desc r))) (rows t),
                map (\<lambda>r. take (nat k) (argsort_desc r)) (rows t)))"

text \<open>
  \<open>predict_step\<close>. The result dict has index and float tensors and is a record here. A
  temperature of 0 makes the division produce infinities and NaN, which a real-valued tensor
  cannot hold: the results about \<open>predict_step\<close> are for a temperature other than 0.
\<close>

record prediction =
  top_k_assets :: "nat list list"
  top_k_probabilities :: "real list list"
  confidence :: "tensor2 option"
  risk_scores :: "tensor2 option"
  regime_probs :: "tensor2 option"

definition predict_step ::
    "FinancialTransformerRecommendationEngine \<Rightarrow> mode \<Rightarrow> tensor3 \<Rightarrow> tensor3 \<Rightarrow> tensor3 \<Rightarrow> tensor3
       \<Rightarrow> real \<Rightarrow> int \<Rightarrow> py_error + prediction" where
  "predict_step self tr price_data volume_data technical_data fundamental_data temperature top_k =
     bind_err (forward self tr price_data volume_data technical_data fundamental_data) (\<lambda>outputs.
     case map_of outputs ''raw_logits'' of
       None \<Rightarrow> Inl KeyError
     | Some raw_logits \<Rightarrow>
         let scaled_logits = map_rows (map (\<lambda>x. x / temperature)) raw_logits;
             scaled_probs = map_rows softmax scaled_logits
         in bind_err (topk scaled_probs top_k) (\<lambda>(top_k_probs, top_k_indices).
            Inr \<lparr>top_k_assets = top_k_indices,
                 top_k_probabilities = top_k_probs,
                 confidence = map_of outputs ''confidence'',
                 risk_scores = map_of outputs ''risk_scores'',
                 regime_probs = map_of outputs ''regime_probs''\<rparr>))"

section \<open>metrics.py: MetricsTracker\<close>

text \<open>
  The tracker object: the history \<open>epoch_metrics\<close> (one dict per update, with the key
  \<open>epoch\<close> first), the retained \<open>best_metrics\<close> and \<open>best_epoch\<close>.
\<close>

record MetricsTracker =
  epoch_metrics :: "fl dict list"
  best_metrics :: "fl dict"
  best_epoch :: int

definition MetricsTracker_init :: MetricsTracker where
  "MetricsTracker_init = \<lparr>epoch_metrics = [], best_metrics = [], best_epoch = 0\<rparr>"

text \<open>
  \<open>MetricsTracker.update(epoch, metrics)\<close>. The primary metric of the new bundle is its
  \<open>sharpe_ratio\<close>, else its \<open>f1\<close>, else 0.0; it is compared with
  \<open>best_metrics.get("sharpe_ratio", float("-inf"))\<close>. An empty dict is falsy.
\<close>

definition update :: "MetricsTracker \<Rightarrow> int \<Rightarrow> fl dict \<Rightarrow> MetricsTracker" where
  "update self epoch metrics =
     (let self1 = self\<lparr>epoch_metrics :=
                    epoch_metrics self @ [dict_update [(''epoch'', Fin (of_int epoch))] metrics]\<rparr>;
          primary_metric = dict_get metrics ''sharpe_ratio'' (dict_get metrics ''f1'' (Fin 0))
      in if best_metrics self1 = [] \<or>
            fl_greater primary_metric (dict_get (best_metrics self1) ''sharpe_ratio'' NInf)
         then self1\<lparr>best_metrics := metrics, best_epoch := epoch\<rparr>
         else self1)"

text \<open>The shapes that the constructors give the encoder and the engine.\<close>

definition wf_feature_encoder :: "FinancialFeatureEncoder \<Rightarrow> nat \<Rightarrow> bool" where
  "wf_feature_encoder enc d =
     (wf_Sequential2 (price_encoder enc) 1 (d div 4) (d div 4) \<and>
      wf_Sequential2 (volume_encoder enc) 1 (d div 4) (d div 4) \<and>
      wf_Sequential2 (technical_encoder enc) 20 (d div 2) (d div 2) \<and>
      wf_Sequential2 (fundamental_encoder enc) 15 (d div 4) (d div 4) \<and>
      wf_Linear (fusion_layer enc) \<and>
      in_features (fusion_layer enc) = d \<and> out_features (fusion_layer enc) = d)"

definition wf_engine :: "FinancialTransformerRecommendationEngine \<Rightarrow> bool" where
  "wf_engine self =
     (wf_feature_encoder (feature_encoder self) (d_model self) \<and>
      pe_d_model (positional_encoding self) = d_model self \<and>
      max_len (positional_encoding self) = 5000 \<and>
      wf_head (recommendation_head self) \<and>
      head_d_model (recommendation_head self) = d_model self \<and>
      head_num_assets (recommendation_head self) = num_assets self)"

section \<open>A small model instance\<close>

text \<open>
  The engine that the constructor builds for \<open>d_model = 6\<close>, two assets and two risk
  factors, with some weights. With the widths of the constructor the four embeddings have
  \<open>3 * (d_model // 4) + d_model // 2\<close> features together, and 6 is the even \<open>d_model\<close> for
  which this is the input width \<open>d_model\<close> of the fusion layer. The encoder stack of the
  instance returns its input, which has the input's shape as every encoder stack does.
\<close>

definition lin :: "nat \<Rightarrow> nat \<Rightarrow> real list list \<Rightarrow> real list \<Rightarrow> Linear" where
  "lin n_in n_out w b = \<lparr>in_features = n_in, out_features = n_out, weight = w, bias = b\<rparr>"

definition example_head :: RiskAwareRecommendationHead where
  "example_head =
     \<lparr>head_d_model = 6, head_num_assets = 2, num_risk_factors = 2,
      recommendation_layers =
        \<lparr>fc1 = lin 6 3 [[1, 0, -1, 0, 0, 0], [0, 1, 0, -1, 0, 0], [0, 0, 0, 0, 1, -1]] [0, 0, 0],
         p_drop = 0.2,
         fc2 = lin 3 2 [[1, -1, 0], [0, 2, 1]] [0, 0]\<rparr>,
      confidence_head =
        \<lparr>fc1 = lin 6 1 [[1, 1, 1, 1, 1, 1]] [0], p_drop = 0.2, fc2 = lin 1 1 [[1]] [0]\<rparr>,
      risk_head =
        \<lparr>fc1 = lin 6 1 [[1, -1, 1, -1, 1, -1]] [0], p_drop = 0.2,
         fc2 = lin 1 2 [[1], [-1]] [0, 0]\<rparr>,
      regime_head =
        \<lparr>fc1 = lin 6 1 [[0, 1, 0, 1, 0, 1]] [0], p_drop = 0.2,
         fc2 = lin 1 3 [[1], [0], [-1]] [0, 0, 0]\<rparr>\<rparr>"

definition example_encoder :: FinancialFeatureEncoder where
  "example_encoder =
     \<lparr>price_encoder =
        \<lparr>fc1 = lin 1 1 [[1]] [0], p_drop = 0.1, fc2 = lin 1 1 [[1]] [0]\<rparr>,
      volume_encoder =
        \<lparr>fc1 = lin 1 1 [[1]] [0], p_drop = 0.1, fc2 = lin 1 1 [[1]] [0]\<rparr>,
      technical_encoder =
        \<lparr>fc1 = lin 20 3 [replicate 20 1, replicate 20 0, replicate 20 (-1)] [0, 0, 0],
         p_drop = 0.1,
         fc2 = lin 3 3 [[1, 0, 0], [0, 1, 0], [0, 0, 1]] [0, 0, 0]\<rparr>,
      fundamental_encoder =
        \<lparr>fc1 = lin 15 1 [replicate 15 1] [0], p_drop = 0.1, fc2 = lin 1 1 [[1]] [0]\<rparr>,
      fusion_layer =
        lin 6 6 [[1, 0, 0, 0, 0, 0], [0, 1, 0, 0, 0, 0], [0, 0, 1, 0, 0, 0],
                 [0, 0, 0, 1, 0, 0], [0, 0, 0, 0, 1, 0], [0, 0, 0, 0, 0, 1]] [0, 0, 0, 0, 0, 0]\<rparr>"

definition example_engine :: FinancialTransformerRecommendationEngine where
  "example_engine =
     \<lparr>d_model = 6, num_assets = 2, sequence_length = 60,
      feature_encoder = example_encoder,
      positional_encoding = \<lparr>pe_d_model = 6, pe_dropout = 0.1, max_len = 5000\<rparr>,
      transformer_encoder = (\<lambda>src attention_mask. Inr src),
      recommendation_head = example_head\<rparr>"

section \<open>Results\<close>

subsection \<open>MetricsTracker\<close>

text \<open>
  Claim C9 says that after every update the retained bundle is the one with the highest
  primary metric (Sharpe ratio, falling back to F1). The comparison in \<open>update\<close> reads only
  the \<open>sharpe_ratio\<close> of the retained bundle and takes minus infinity when it is absent, so
  with bundles that carry only \<open>f1\<close> (what the validation loop passes) every update
  replaces the retained bundle: after the bundles f1 = 0.9 (epoch 0) and f1 = 0.5 (epoch 1)
  the tracker retains the second one, which scored lower.
\<close>

theorem C9_update_keeps_lower_f1:
  "best_metrics (update (update MetricsTracker_init 0 [(''f1'', Fin 0.9)]) 1 [(''f1'', Fin 0.5)])
     = [(''f1'', Fin 0.5)]
   \<and> best_epoch (update (update MetricsTracker_init 0 [(''f1'', Fin 0.9)]) 1 [(''f1'', Fin 0.5)])
     = 1"
  by (simp add: update_def MetricsTracker_init_def dict_get_def dict_update_def fl_greater_def)

subsection \<open>Regime labels of the regime loss\<close>

lemma bull_cond_iff:
  "bull_cond t = (\<exists>m s. torch_mean t = Fin m \<and> torch_std t = Fin s \<and> 0.001 < m \<and> s < 0.03)"
  unfolding bull_cond_def fl_greater_def
  by (cases "torch_mean t"; cases "torch_std t") (auto simp: torch_mean_def torch_std_def split: if_splits)

lemma bear_cond_iff:
  "bear_cond t = (\<exists>m s. torch_mean t = Fin m \<and> torch_std t = Fin s \<and> m < - 0.001 \<and> 0.02 < s)"
  unfolding bear_cond_def fl_greater_def
  by (cases "torch_mean t"; cases "torch_std t") (auto simp: torch_mean_def torch_std_def split: if_splits)

lemma regime_labels_length: "length (regime_labels targets) = length (rows targets)"
  by (simp add: regime_labels_def masked_assign_def Let_def)

lemma regime_labels_nth:
  "i < length (rows targets) \<Longrightarrow>
   regime_labels targets ! i =
     (if \<not> (bull_cond (rows targets ! i) \<or> bear_cond (rows targets ! i)) then 2
      else if bear_cond (rows targets ! i) then 1 else 0)"
  by (simp add: regime_labels_def masked_assign_def Let_def)

lemma bull_not_bear: "bull_cond t \<Longrightarrow> \<not> bear_cond t"
  by (auto simp: bull_cond_iff bear_cond_iff)

text \<open>
  Claim C3: the label inferred for sample \<open>i\<close> is 0 (bull) exactly when the mean of its
  target row is above 0.001 and its standard deviation below 0.03, 1 (bear) exactly when the
  mean is below -0.001 and the standard deviation above 0.02, and 2 (sideways) in every
  other case, which includes a mean or a standard deviation that is NaN. In particular mean
  0.005 with std 0.01 gives 0, mean -0.005 with std 0.05 gives 1 and mean 0.0 with std 0.01
  gives 2.
\<close>

theorem C3_regime_labels:
  "length (regime_labels targets) = length (rows targets) \<and>
   (\<forall>i<length (rows targets).
      (regime_labels targets ! i = 0 \<longleftrightarrow>
         (\<exists>m s. torch_mean (rows targets ! i) = Fin m \<and> torch_std (rows targets ! i) = Fin s \<and>
                m > 0.001 \<and> s < 0.03)) \<and>
      (regime_labels targets ! i = 1 \<longleftrightarrow>
         (\<exists>m s. torch_mean (rows targets ! i) = Fin m \<and> torch_std (rows targets ! i) = Fin s \<and>
                m < - 0.001 \<and> s > 0.02)) \<and>
      (regime_labels targets ! i = 2 \<longleftrightarrow>
         \<not> (\<exists>m s. torch_mean (rows targets ! i) = Fin m \<and> torch_std (rows targets ! i) = Fin s \<and>
                m > 0.001 \<and> s < 0.03) \<and>
         \<not> (\<exists>m s. torch_mean (rows targets ! i) = Fin m \<and> torch_std (rows targets ! i) = Fin s \<and>
                m < - 0.001 \<and> s > 0.02)) \<and>
      (torch_mean (rows targets ! i) = Fin 0.005 \<and> torch_std (rows targets ! i) = Fin 0.01
         \<longrightarrow> regime_labels targets ! i = 0) \<and>
      (torch_mean (rows targets ! i) = Fin (- 0.005) \<and> torch_std (rows targets ! i) = Fin 0.05
         \<longrightarrow> regime_labels targets ! i = 1) \<and>
      (torch_mean (rows targets ! i) = Fin 0.0 \<and> torch_std (rows targets ! i) = Fin 0.01
         \<longrightarrow> regime_labels targets ! i = 2))"
proof (intro conjI allI impI)
  show "length (regime_labels targets) = length (rows targets)"
    by (rule regime_labels_length)
next
  fix i assume i: "i < length (rows targets)"
  let ?t = "rows targets ! i"
  note l = regime_labels_nth [OF i] bull_not_bear [of ?t]
  show "(regime_labels targets ! i = 0) = (\<exists>m s. torch_mean ?t = Fin m \<and> torch_std ?t = Fin s \<and>
          m > 0.001 \<and> s < 0.03)"
    unfolding bull_cond_iff [symmetric] using l by auto
  show "(regime_labels targets ! i = 1) = (\<exists>m s. torch_mean ?t = Fin m \<and> torch_std ?t = Fin s \<and>
          m < - 0.001 \<and> s > 0.02)"
    unfolding bear_cond_iff [symmetric] using l by auto
  show "(regime_labels targets ! i = 2) =
          (\<not> (\<exists>m s. torch_mean ?t = Fin m \<and> torch_std ?t = Fin s \<and> m > 0.001 \<and> s < 0.03) \<and>
           \<not> (\<exists>m s. torch_mean ?t = Fin m \<and> torch_std ?t = Fin s \<and> m < - 0.001 \<and> s > 0.02))"
    unfolding bull_cond_iff [symmetric] bear_cond_iff [symmetric] using l by auto
  {
    assume "torch_mean ?t = Fin 0.005 \<and> torch_std ?t = Fin 0.01"
    then have "bull_cond ?t" by (simp add: bull_cond_def fl_greater_def)
    then show "regime_labels targets ! i = 0" using l by auto
  }
  {
    assume "torch_mean ?t = Fin (- 0.005) \<and> torch_std ?t = Fin 0.05"
    then have "bear_cond ?t" by (simp add: bear_cond_def fl_greater_def)
    then show "regime_labels targets ! i = 1" using l by auto
  }
  {
    assume "torch_mean ?t = Fin 0.0 \<and> torch_std ?t = Fin 0.01"
    then have "\<not> bull_cond ?t \<and> \<not> bear_cond ?t"
      by (simp add: bull_cond_def bear_cond_def fl_greater_def)
    then show "regime_labels targets ! i = 2" using l by auto
  }
qed

lemma sqrt_sq_100: "sqrt (1 / 10000) = 1 / 100"
  by (rule real_sqrt_unique) (simp_all add: power2_eq_square)

lemma sqrt_sq_20: "sqrt (1 / 400) = 1 / 20"
  by (rule real_sqrt_unique) (simp_all add: power2_eq_square)

text \<open>
  Three target rows with exactly the statistics of the scenario: the labels of the batch are
  bull, bear, sideways.
\<close>

theorem C3_regime_labels_witness:
  "regime_labels (Tensor2 3 [[- 0.005, 0.005, 0.015], [- 0.055, - 0.005, 0.045], [- 0.01, 0, 0.01]])
     = [0, 1, 2]"
proof -
  let ?t = "Tensor2 3 [[- 0.005, 0.005, 0.015], [- 0.055, - 0.005, 0.045], [- 0.01, 0, 0.01]]"
  have m0: "torch_mean (rows ?t ! 0) = Fin 0.005" by (simp add: torch_mean_def)
  have s0: "torch_std (rows ?t ! 0) = Fin 0.01"
    by (simp add: torch_std_def power2_eq_square sqrt_sq_100)
  have m1: "torch_mean (rows ?t ! 1) = Fin (- 0.005)" by (simp add: torch_mean_def)
  have s1: "torch_std (rows ?t ! 1) = Fin 0.05"
    by (simp add: torch_std_def power2_eq_square sqrt_sq_20)
  have m2: "torch_mean (rows ?t ! 2) = Fin 0.0" by (simp add: torch_mean_def)
  have s2: "torch_std (rows ?t ! 2) = Fin 0.01"
    by (simp add: torch_std_def power2_eq_square sqrt_sq_100)
  have len: "length (regime_labels ?t) = 3" using C3_regime_labels [of ?t] by simp
  have "regime_labels ?t ! 0 = 0" "regime_labels ?t ! 1 = 1" "regime_labels ?t ! 2 = 2"
    using C3_regime_labels [of ?t] m0 s0 m1 s1 m2 s2 by simp_all
  moreover from len obtain a b c where "regime_labels ?t = [a, b, c]"
    by (auto simp: numeral_3_eq_3 length_Suc_conv)
  ultimately show ?thesis by simp
qed

subsection \<open>Recommendation loss\<close>

lemma argsort_P: "argsort_desc [3 / 10, 1 / 2, 1 / 5] = [1, 0, 2]"
  by (simp add: argsort_desc_def upt_conv_Cons)

lemma argsort_T: "argsort_desc [1 / 100, 3 / 100, 1 / 50] = [1, 2, 0]"
  by (simp add: argsort_desc_def upt_conv_Cons)

lemma rank_P: "rank_desc [3 / 10, 1 / 2, 1 / 5] = [1, 0, 2]"
  by (simp add: rank_desc_def upt_conv_Cons)

lemma rank_T: "rank_desc [1 / 100, 3 / 100, 1 / 50] = [2, 0, 1]"
  by (simp add: rank_desc_def upt_conv_Cons)

lemma ranking_term_PT: "ranking_term [3 / 10, 1 / 2, 1 / 5] [1 / 100, 3 / 100, 1 / 50] = Fin 2"
  by (simp add: ranking_term_def argsort_P argsort_T Let_def)

lemma spec_PT: "spec_ranking_term [3 / 10, 1 / 2, 1 / 5] [1 / 100, 3 / 100, 1 / 50] = 1 / 2"
  by (simp add: spec_ranking_term_def rank_P rank_T Let_def)

text \<open>
  Claim C4 says that the ranking term is computed from the descending ranks of the predicted
  and the target vector. The source comments the statistic as a Spearman rank correlation
  and names its variables \<open>pred_ranks\<close> and \<open>target_ranks\<close>, but they hold the result of
  \<open>torch.argsort\<close>: the sorting permutation, which is the inverse of the ranks. For the
  one-sample batch with prediction row (0.3, 0.5, 0.2) and target row (0.01, 0.03, 0.02) the
  source adds \<open>1 - \<rho> = 2\<close> and returns MSE + 0.1 * 2, where the statistic of the claim,
  computed from the ranks, is \<open>1 - \<rho> = 0.5\<close>.
\<close>

theorem C4_ranking_term_uses_argsort:
  "calculate_recommendation_loss (Tensor2 3 [[0.3, 0.5, 0.2]]) (Tensor2 3 [[0.01, 0.03, 0.02]]) None
     = Inr (Fin (0.3374 / 3 + 0.1 * 2))
   \<and> ranking_term [0.3, 0.5, 0.2] [0.01, 0.03, 0.02] = Fin 2
   \<and> spec_ranking_term [0.3, 0.5, 0.2] [0.01, 0.03, 0.02] = 0.5"
  by (simp add: calculate_recommendation_loss_def mse_loss_def shape_def bind_err_def
      torch_mean_def fl_sum_def ranking_term_PT spec_PT power2_eq_square)

subsection \<open>Total loss\<close>

lemma key_simps:
  "str_replace ''recommendation_loss'' ''_loss'' [] = ''recommendation''"
  "str_replace ''confidence_loss'' ''_loss'' [] = ''confidence''"
  "str_replace ''risk_loss'' ''_loss'' [] = ''risk''"
  "str_replace ''regime_loss'' ''_loss'' [] = ''regime''"
  by (simp_all add: str_replace_def)



lemma dict_set_fresh: "k \<notin> fst ` set d \<Longrightarrow> dict_set d k v = d @ [(k, v)]"
  by (induction d) auto

lemma optional_loss_Inr:
  "optional_loss mo key name f losses = Inr L \<Longrightarrow> name \<notin> fst ` set losses \<Longrightarrow>
   \<exists>c. L = losses @ (case c of None \<Rightarrow> [] | Some x \<Rightarrow> [(name, x)])"
proof (cases "map_of mo key")
  case None
  assume "optional_loss mo key name f losses = Inr L"
  with None have "L = losses @ (case None of None \<Rightarrow> [] | Some x \<Rightarrow> [(name, x)])"
    by (simp add: optional_loss_def)
  then show ?thesis by blast
next
  case (Some t)
  assume "optional_loss mo key name f losses = Inr L" and "name \<notin> fst ` set losses"
  with Some obtain l where "L = losses @ [(name, l)]"
    by (auto simp: optional_loss_def bind_err_def dict_set_fresh split: sum.splits)
  then have "L = losses @ (case Some l of None \<Rightarrow> [] | Some x \<Rightarrow> [(name, x)])" by simp
  then show ?thesis by blast
qed

lemma weighted_total_default:
  "weighted_total default_loss_weights
     ((''recommendation_loss'', r) #
        (case c of None \<Rightarrow> [] | Some x \<Rightarrow> [(''confidence_loss'', x)]) @
        (case k of None \<Rightarrow> [] | Some x \<Rightarrow> [(''risk_loss'', x)]) @
        (case g of None \<Rightarrow> [] | Some x \<Rightarrow> [(''regime_loss'', x)]))
   = fl_sum (fl_scale 1.0 r #
        (case c of None \<Rightarrow> [] | Some x \<Rightarrow> [fl_scale 0.3 x]) @
        (case k of None \<Rightarrow> [] | Some x \<Rightarrow> [fl_scale 0.2 x]) @
        (case g of None \<Rightarrow> [] | Some x \<Rightarrow> [fl_scale 0.1 x]))"
  by (cases c; cases k; cases g)
     (simp_all add: weighted_total_def default_loss_weights_def dict_get_def key_simps fl_sum_def)


lemma total_of_components:
  "map_of (dict_set
      ((''recommendation_loss'', r) #
        (case c of None \<Rightarrow> [] | Some x \<Rightarrow> [(''confidence_loss'', x)]) @
        (case k of None \<Rightarrow> [] | Some x \<Rightarrow> [(''risk_loss'', x)]) @
        (case g of None \<Rightarrow> [] | Some x \<Rightarrow> [(''regime_loss'', x)])) ''total_loss'' T) n
   = (if n = ''recommendation_loss'' then Some r
      else if n = ''confidence_loss'' then c
      else if n = ''risk_loss'' then k
      else if n = ''regime_loss'' then g
      else if n = ''total_loss'' then Some T else None)"
  by (cases c; cases k; cases g) simp_all

lemma compute_total_loss_shape:
  assumes "compute_total_loss self model_outputs targets = Inr L"
  shows "\<exists>r c k g. L = dict_set
      ((''recommendation_loss'', r) #
        (case c of None \<Rightarrow> [] | Some x \<Rightarrow> [(''confidence_loss'', x)]) @
        (case k of None \<Rightarrow> [] | Some x \<Rightarrow> [(''risk_loss'', x)]) @
        (case g of None \<Rightarrow> [] | Some x \<Rightarrow> [(''regime_loss'', x)])) ''total_loss''
      (weighted_total (loss_weights self)
        ((''recommendation_loss'', r) #
          (case c of None \<Rightarrow> [] | Some x \<Rightarrow> [(''confidence_loss'', x)]) @
          (case k of None \<Rightarrow> [] | Some x \<Rightarrow> [(''risk_loss'', x)]) @
          (case g of None \<Rightarrow> [] | Some x \<Rightarrow> [(''regime_loss'', x)])))"
proof -
  from assms obtain recs r l1 l2 l3 where
      1: "optional_loss model_outputs ''confidence'' ''confidence_loss''
            (\<lambda>c. calculate_confidence_loss c recs targets) [(''recommendation_loss'', r)] = Inr l1"
    and 2: "optional_loss model_outputs ''risk_scores'' ''risk_loss''
            (\<lambda>r. calculate_risk_loss r targets) l1 = Inr l2"
    and 3: "optional_loss model_outputs ''regime_probs'' ''regime_loss''
            (\<lambda>g. calculate_regime_loss g targets) l2 = Inr l3"
    and L: "L = dict_set l3 ''total_loss'' (weighted_total (loss_weights self) l3)"
    by (auto simp: compute_total_loss_def bind_err_def split: option.splits sum.splits)
  from optional_loss_Inr [OF 1] obtain c where
    l1: "l1 = [(''recommendation_loss'', r)] @ (case c of None \<Rightarrow> [] | Some x \<Rightarrow> [(''confidence_loss'', x)])"
    by auto
  have "''risk_loss'' \<notin> fst ` set l1" unfolding l1 by (cases c) auto
  from optional_loss_Inr [OF 2 this] obtain k where
    l2: "l2 = l1 @ (case k of None \<Rightarrow> [] | Some x \<Rightarrow> [(''risk_loss'', x)])" by auto
  have "''regime_loss'' \<notin> fst ` set l2" unfolding l2 l1 by (cases c; cases k) auto
  from optional_loss_Inr [OF 3 this] obtain g where
    l3: "l3 = l2 @ (case g of None \<Rightarrow> [] | Some x \<Rightarrow> [(''regime_loss'', x)])" by auto
  show ?thesis unfolding L l3 l2 l1 by (intro exI [of _ r] exI [of _ c] exI [of _ k] exI [of _ g]) simp
qed

text \<open>
  Claim C2: with the default loss weights, whenever \<open>_compute_total_loss\<close> returns, the
  entry \<open>total_loss\<close> of the returned dict is the sum of 1.0, 0.3, 0.2 and 0.1 times the
  recommendation, confidence, risk and regime losses that are present in that dict; and
  the weighted sum of the component losses 1.0, 2.0, 3.0, 4.0 is 2.6.
\<close>

theorem C2_total_loss:
  "(compute_total_loss (init_module None) model_outputs targets = Inr L \<longrightarrow>
      map_of L ''total_loss'' =
        Some (fl_sum (concat (map (\<lambda>(n, w). case map_of L n of None \<Rightarrow> [] | Some l \<Rightarrow> [fl_scale w l])
                [(''recommendation_loss'', 1.0), (''confidence_loss'', 0.3),
                 (''risk_loss'', 0.2), (''regime_loss'', 0.1)]))))
   \<and> weighted_total (loss_weights (init_module None))
        [(''recommendation_loss'', Fin 1.0), (''confidence_loss'', Fin 2.0),
         (''risk_loss'', Fin 3.0), (''regime_loss'', Fin 4.0)] = Fin 2.6"
proof (intro conjI impI)
  assume H: "compute_total_loss (init_module None) model_outputs targets = Inr L"
  have lw: "loss_weights (init_module None) = default_loss_weights"
    by (simp add: init_module_def)
  from compute_total_loss_shape [OF H] obtain r c k g where L: "L = dict_set
      ((''recommendation_loss'', r) #
        (case c of None \<Rightarrow> [] | Some x \<Rightarrow> [(''confidence_loss'', x)]) @
        (case k of None \<Rightarrow> [] | Some x \<Rightarrow> [(''risk_loss'', x)]) @
        (case g of None \<Rightarrow> [] | Some x \<Rightarrow> [(''regime_loss'', x)])) ''total_loss''
      (weighted_total default_loss_weights
        ((''recommendation_loss'', r) #
          (case c of None \<Rightarrow> [] | Some x \<Rightarrow> [(''confidence_loss'', x)]) @
          (case k of None \<Rightarrow> [] | Some x \<Rightarrow> [(''risk_loss'', x)]) @
          (case g of None \<Rightarrow> [] | Some x \<Rightarrow> [(''regime_loss'', x)])))"
    unfolding lw by blast
  show "map_of L ''total_loss'' =
        Some (fl_sum (concat (map (\<lambda>(n, w). case map_of L n of None \<Rightarrow> [] | Some l \<Rightarrow> [fl_scale w l])
                [(''recommendation_loss'', 1.0), (''confidence_loss'', 0.3),
                 (''risk_loss'', 0.2), (''regime_loss'', 0.1)])))"
    unfolding L total_of_components weighted_total_default
    by (cases c; cases k; cases g) simp_all
next
  show "weighted_total (loss_weights (init_module None))
        [(''recommendation_loss'', Fin 1.0), (''confidence_loss'', Fin 2.0),
         (''risk_loss'', Fin 3.0), (''regime_loss'', Fin 4.0)] = Fin 2.6"
    by (simp add: init_module_def weighted_total_def default_loss_weights_def dict_get_def key_simps)
qed


lemma C2_example_run:
  "compute_total_loss (init_module None)
     [(''recommendations'', Tensor2 3 [[0.3, 0.5, 0.2]]), (''confidence'', Tensor2 1 [[0.5]])]
     (Tensor2 3 [[0.01, 0.03, 0.02]])
   = Inr [(''recommendation_loss'', Fin (4687 / 12000)),
          (''confidence_loss'', Fin (10609 / 155236)),
          (''total_loss'', Fin (4687 / 12000 + 0.3 * (10609 / 155236)))]"
  by (simp add: compute_total_loss_def optional_loss_def bind_err_def init_module_def
      calculate_recommendation_loss_def calculate_confidence_loss_def mse_loss_def shape_def
      torch_mean_def fl_sum_def fl_mean_def fl_sq_diff_def ranking_term_PT power2_eq_square
      weighted_total_def default_loss_weights_def dict_get_def key_simps)

text \<open>
  A run on a one-sample batch with a recommendation and a confidence output: the call
  returns, and the total is 1.0 times the recommendation loss plus 0.3 times the
  confidence loss.
\<close>

theorem C2_total_loss_witness:
  "compute_total_loss (init_module None)
     [(''recommendations'', Tensor2 3 [[0.3, 0.5, 0.2]]), (''confidence'', Tensor2 1 [[0.5]])]
     (Tensor2 3 [[0.01, 0.03, 0.02]])
   = Inr [(''recommendation_loss'', Fin (4687 / 12000)),
          (''confidence_loss'', Fin (10609 / 155236)),
          (''total_loss'', Fin (4687 / 12000 + 0.3 * (10609 / 155236)))]
   \<and> map_of [(''recommendation_loss'', Fin (4687 / 12000)),
          (''confidence_loss'', Fin (10609 / 155236)),
          (''total_loss'', Fin (4687 / 12000 + 0.3 * (10609 / 155236)))] ''total_loss''
     = Some (fl_sum [fl_scale 1.0 (Fin (4687 / 12000)), fl_scale 0.3 (Fin (10609 / 155236))])"
  using C2_total_loss [of "[(''recommendations'', Tensor2 3 [[0.3, 0.5, 0.2]]), (''confidence'', Tensor2 1 [[0.5]])]"
      "Tensor2 3 [[0.01, 0.03, 0.02]]"
      "[(''recommendation_loss'', Fin (4687 / 12000)),
          (''confidence_loss'', Fin (10609 / 155236)),
          (''total_loss'', Fin (4687 / 12000 + 0.3 * (10609 / 155236)))]"]
    C2_example_run
  by (simp add: fl_sum_def)

subsection \<open>Prediction heads\<close>

lemma sum_list_exp_nonneg: "0 \<le> (\<Sum>y\<leftarrow>xs. exp (y::real))"
  by (induction xs) auto

lemma sum_list_exp_pos: "xs \<noteq> [] \<Longrightarrow> 0 < (\<Sum>y\<leftarrow>xs. exp (y::real))"
proof (cases xs)
  case (Cons a as)
  have "0 < exp a" by simp
  moreover have "0 \<le> (\<Sum>y\<leftarrow>as. exp y)" by (rule sum_list_exp_nonneg)
  ultimately show ?thesis using Cons by (simp add: add_pos_nonneg)
qed simp

lemma sum_list_div: "(\<Sum>x\<leftarrow>xs. f x / (c::real)) = (\<Sum>x\<leftarrow>xs. f x) / c"
  by (induction xs) (simp_all add: add_divide_distrib)

lemma softmax_nonneg: "p \<in> set (softmax xs) \<Longrightarrow> 0 \<le> p"
  using sum_list_exp_nonneg [of xs] by (auto simp: softmax_def)

lemma softmax_sum: "xs \<noteq> [] \<Longrightarrow> sum_list (softmax xs) = 1"
proof -
  assume ne: "xs \<noteq> []"
  have "sum_list (softmax xs) = (\<Sum>x\<leftarrow>xs. exp x) / (\<Sum>y\<leftarrow>xs. exp y)"
    unfolding softmax_def by (simp add: sum_list_div comp_def)
  then show ?thesis using sum_list_exp_pos [OF ne] by simp
qed

lemma sigmoid_range: "0 \<le> sigmoid x \<and> sigmoid x \<le> 1"
proof -
  have "0 < exp (- x)" by simp
  then show ?thesis unfolding sigmoid_def by (simp add: add_pos_pos less_imp_le)
qed

lemma length_linear_vec: "wf_Linear l \<Longrightarrow> length (linear_vec l x) = out_features l"
  by (simp add: linear_vec_def wf_Linear_def)

lemma length_sequential_vec:
  "wf_Sequential2 m a b c \<Longrightarrow> length (sequential_vec m tr site x) = c"
  by (simp add: sequential_vec_def wf_Sequential2_def length_linear_vec)

lemma sequential_rows_lengths:
  "wf_Sequential2 m a b c \<Longrightarrow> r \<in> set (sequential_rows m tr site xs) \<Longrightarrow> length r = c"
  by (auto simp: sequential_rows_def length_sequential_vec)

lemma sequential2_ok:
  "wf_Sequential2 m a b c \<Longrightarrow> ncols x = a \<Longrightarrow>
   sequential2 m tr site x = Inr (Tensor2 c (sequential_rows m tr site (rows x)))"
  by (simp add: sequential2_def wf_Sequential2_def)


lemma softmax_row_props:
  assumes "wf_Sequential2 m a b c" "0 < c" "row \<in> set (rows (map_rows softmax (Tensor2 c (sequential_rows m tr site xs))))"
  shows "(\<forall>p\<in>set row. 0 \<le> p) \<and> sum_list row = 1 \<and> \<bar>sum_list row - 1\<bar> \<le> 1 / 100000 \<and> length row = c"
proof -
  from assms(3) obtain r where r: "r \<in> set (sequential_rows m tr site xs)" and row: "row = softmax r"
    by (auto simp: map_rows_def)
  from sequential_rows_lengths [OF assms(1) r] have len: "length r = c" .
  with assms(2) have "r \<noteq> []" by auto
  then have "sum_list row = 1" unfolding row by (rule softmax_sum)
  moreover have "\<forall>p\<in>set row. 0 \<le> p" unfolding row using softmax_nonneg by blast
  moreover have "length row = c" unfolding row using len by (simp add: softmax_def)
  ultimately show ?thesis by simp
qed

lemma sigmoid_row_props:
  assumes "wf_Sequential2 m a b c" "row \<in> set (rows (map_rows (map sigmoid) (Tensor2 c (sequential_rows m tr site xs))))"
  shows "length row = c \<and> (\<forall>v\<in>set row. 0 \<le> v \<and> v \<le> 1)"
proof -
  from assms(2) obtain r where r: "r \<in> set (sequential_rows m tr site xs)" and row: "row = map sigmoid r"
    by (auto simp: map_rows_def)
  from sequential_rows_lengths [OF assms(1) r] have "length r = c" .
  then show ?thesis unfolding row using sigmoid_range by auto
qed

lemma head_forward_ok:
  assumes "wf_head h" "ncols x = head_d_model h"
  shows "head_forward h tr x =
     Inr [(''recommendations'', map_rows softmax (Tensor2 (head_num_assets h) (sequential_rows (recommendation_layers h) tr [6] (rows x)))),
          (''confidence'', map_rows (map sigmoid) (Tensor2 1 (sequential_rows (confidence_head h) tr [7] (rows x)))),
          (''risk_scores'', map_rows softmax (Tensor2 (num_risk_factors h) (sequential_rows (risk_head h) tr [8] (rows x)))),
          (''regime_probs'', map_rows softmax (Tensor2 3 (sequential_rows (regime_head h) tr [9] (rows x)))),
          (''raw_logits'', Tensor2 (head_num_assets h) (sequential_rows (recommendation_layers h) tr [6] (rows x)))]"
proof -
  from assms(1) have
      w1: "wf_Sequential2 (recommendation_layers h) (head_d_model h) (head_d_model h div 2) (head_num_assets h)"
    and w2: "wf_Sequential2 (confidence_head h) (head_d_model h) (head_d_model h div 4) 1"
    and w3: "wf_Sequential2 (risk_head h) (head_d_model h) (head_d_model h div 4) (num_risk_factors h)"
    and w4: "wf_Sequential2 (regime_head h) (head_d_model h) (head_d_model h div 4) 3"
    by (simp_all add: wf_head_def)
  show ?thesis
    unfolding head_forward_def
    by (simp only: sequential2_ok [OF w1 assms(2)] sequential2_ok [OF w2 assms(2)]
        sequential2_ok [OF w3 assms(2)] sequential2_ok [OF w4 assms(2)] bind_err_def Let_def sum.case)
qed

text \<open>
  Claim C1: for a head with the layer shapes of its constructor, at least one asset and at
  least one risk factor, and every batch of \<open>d_model\<close>-wide real vectors, in evaluation
  and in training mode, \<open>forward\<close> returns; every row of \<open>recommendations\<close>,
  \<open>risk_scores\<close> and \<open>regime_probs\<close> is non-negative and sums to 1 (exactly, over the
  reals, hence within 1e-5), and every confidence lies in [0, 1].
\<close>

theorem C1_head_outputs_normalised:
  assumes "wf_head h" and "ncols x = head_d_model h"
    and "0 < head_num_assets h" and "0 < num_risk_factors h"
  shows "\<exists>recommendations confidence risk_scores regime_probs raw_logits.
     head_forward h tr x =
       Inr [(''recommendations'', recommendations), (''confidence'', confidence),
            (''risk_scores'', risk_scores), (''regime_probs'', regime_probs),
            (''raw_logits'', raw_logits)] \<and>
     (\<forall>row\<in>set (rows recommendations).
        (\<forall>p\<in>set row. 0 \<le> p) \<and> sum_list row = 1 \<and> \<bar>sum_list row - 1\<bar> \<le> 1 / 100000 \<and>
        length row = head_num_assets h) \<and>
     (\<forall>row\<in>set (rows risk_scores).
        (\<forall>p\<in>set row. 0 \<le> p) \<and> sum_list row = 1 \<and> \<bar>sum_list row - 1\<bar> \<le> 1 / 100000 \<and>
        length row = num_risk_factors h) \<and>
     (\<forall>row\<in>set (rows regime_probs).
        (\<forall>p\<in>set row. 0 \<le> p) \<and> sum_list row = 1 \<and> \<bar>sum_list row - 1\<bar> \<le> 1 / 100000 \<and>
        length row = 3) \<and>
     (\<forall>row\<in>set (rows confidence). length row = 1 \<and> (\<forall>c\<in>set row. 0 \<le> c \<and> c \<le> 1)) \<and>
     length (rows recommendations) = length (rows x) \<and> length (rows confidence) = length (rows x) \<and>
     length (rows risk_scores) = length (rows x) \<and> length (rows regime_probs) = length (rows x)"
proof -
  from assms(1) have
      w1: "wf_Sequential2 (recommendation_layers h) (head_d_model h) (head_d_model h div 2) (head_num_assets h)"
    and w2: "wf_Sequential2 (confidence_head h) (head_d_model h) (head_d_model h div 4) 1"
    and w3: "wf_Sequential2 (risk_head h) (head_d_model h) (head_d_model h div 4) (num_risk_factors h)"
    and w4: "wf_Sequential2 (regime_head h) (head_d_model h) (head_d_model h div 4) 3"
    by (simp_all add: wf_head_def)
  show ?thesis
    apply (subst head_forward_ok [OF assms(1,2)])
    apply (intro exI conjI)
            apply (rule refl)
    using softmax_row_props [OF w1 assms(3)] apply blast
    using softmax_row_props [OF w3 assms(4)] apply blast
    using softmax_row_props [OF w4] apply (metis zero_less_numeral)
    using sigmoid_row_props [OF w2] apply blast
       apply (simp_all add: map_rows_def sequential_rows_def)
    done
qed




lemma wf_example_head: "wf_head example_head"
  by (simp add: wf_head_def example_head_def wf_Sequential2_def wf_Linear_def lin_def)

text \<open>The theorem at the small instance and the input row (1, 2, 3, 4, 5, 6).\<close>

theorem C1_head_outputs_normalised_witness:
  "wf_head example_head \<and> ncols (Tensor2 6 [[1, 2, 3, 4, 5, 6]]) = head_d_model example_head \<and>
   0 < head_num_assets example_head \<and> 0 < num_risk_factors example_head \<and>
   (\<exists>recommendations confidence risk_scores regime_probs raw_logits.
      head_forward example_head None (Tensor2 6 [[1, 2, 3, 4, 5, 6]]) =
        Inr [(''recommendations'', recommendations), (''confidence'', confidence),
             (''risk_scores'', risk_scores), (''regime_probs'', regime_probs),
             (''raw_logits'', raw_logits)] \<and>
      list_all (\<lambda>row. list_all (\<lambda>p. 0 \<le> p) row \<and> sum_list row = 1) (rows recommendations) \<and>
      list_all (\<lambda>row. list_all (\<lambda>p. 0 \<le> p) row \<and> sum_list row = 1) (rows risk_scores) \<and>
      list_all (\<lambda>row. list_all (\<lambda>p. 0 \<le> p) row \<and> sum_list row = 1) (rows regime_probs) \<and>
      list_all (list_all (\<lambda>c. 0 \<le> c \<and> c \<le> 1)) (rows confidence) \<and>
      length (rows recommendations) = 1)"
proof -
  have a: "ncols (Tensor2 6 [[1, 2, 3, 4, 5, 6]]) = head_d_model example_head"
    and b: "0 < head_num_assets example_head" and c: "0 < num_risk_factors example_head"
    by (simp_all add: example_head_def)
  from C1_head_outputs_normalised [OF wf_example_head a b c, of None]
  show ?thesis using wf_example_head a b c
    by (simp add: list_all_iff) blast
qed

subsection \<open>Forward pass and sequence length\<close>

lemma sequential3_seq_len: "sequential3 m tr site t = Inr u \<Longrightarrow> seq_len u = seq_len t"
  by (auto simp: sequential3_def split: if_splits)

lemma cat4_seq_len: "cat4 a b c d = Inr u \<Longrightarrow> seq_len u = seq_len a"
  by (auto simp: cat4_def split: if_splits)

lemma fusion_seq_len: "fusion l tr site t = Inr u \<Longrightarrow> seq_len u = seq_len t"
  by (auto simp: fusion_def split: if_splits)

lemma feature_encoder_seq_len:
  "feature_encoder_forward enc tr p v t f = Inr e \<Longrightarrow> seq_len e = seq_len p"
  by (auto simp: feature_encoder_forward_def bind_err_def split: sum.splits
      dest!: sequential3_seq_len cat4_seq_len fusion_seq_len)

lemma positional_encoding_seq_len:
  "positional_encoding_forward pe tr site x = Inr y \<Longrightarrow> seq_len y = seq_len x"
  by (auto simp: positional_encoding_forward_def split: if_splits)

text \<open>
  Claim C8 says that an input of sequence length 0 is rejected with an error before the
  attention mask is constructed. \<open>forward\<close> has no check of the sequence length. On the
  small instance and a batch of one sample with no time step, the feature encoder and the
  positional encoding return, the mask is constructed (it is the empty matrix) and handed
  to the encoder stack, and the call fails only when the last time step is selected.
\<close>

theorem C8_zero_length_reaches_mask:
  "forward_run example_engine None
     (Tensor3 0 1 [[]]) (Tensor3 0 1 [[]]) (Tensor3 0 20 [[]]) (Tensor3 0 15 [[]])
   = ([At_feature_encoder, At_positional_encoding, At_create_attention_mask,
       At_transformer_encoder, At_last_time_step], Inl IndexError)
   \<and> create_attention_mask (seq_len (Tensor3 0 1 [[]])) = []"
  by (simp add: forward_run_def example_engine_def example_encoder_def lin_def
      feature_encoder_forward_def sequential3_def cat4_def fusion_def bind_err_def
      positional_encoding_forward_def last_time_step_def create_attention_mask_def
      sequential_rows_def enumerate_eq_zip)

text \<open>
  Claim C8 as the code has it: for every engine and every input of sequence length 0 on
  which the feature encoder and the positional encoding return, \<open>forward\<close> constructs the
  empty mask and starts the encoder stack, and the call does not return a result: when
  the encoder stack returns a tensor with the sequence length of its input, selecting the
  last time step raises \<open>IndexError\<close>.
\<close>

theorem C8_zero_length_fails_after_mask:
  assumes "seq_len price_data = 0"
    and "feature_encoder_forward (feature_encoder self) tr
           price_data volume_data technical_data fundamental_data = Inr encoded_features"
    and "positional_encoding_forward (positional_encoding self) tr [5] encoded_features = Inr src"
    and "\<forall>out. transformer_encoder self src [] = Inr out \<longrightarrow> seq_len out = seq_len src"
  shows "create_attention_mask (seq_len price_data) = [] \<and>
         At_create_attention_mask \<in>
           set (fst (forward_run self tr price_data volume_data technical_data fundamental_data)) \<and>
         (\<exists>e. forward self tr price_data volume_data technical_data fundamental_data = Inl e) \<and>
         (\<forall>out. transformer_encoder self src [] = Inr out \<longrightarrow>
            forward_run self tr price_data volume_data technical_data fundamental_data =
              ([At_feature_encoder, At_positional_encoding, At_create_attention_mask,
                At_transformer_encoder, At_last_time_step], Inl IndexError))"
proof -
  have m: "create_attention_mask (seq_len price_data) = []"
    by (simp add: assms(1) create_attention_mask_def)
  have s: "seq_len src = 0"
    using positional_encoding_seq_len [OF assms(3)] feature_encoder_seq_len [OF assms(2)] assms(1)
    by simp
  show ?thesis
  proof (cases "transformer_encoder self src []")
    case (Inl e)
    then show ?thesis using m assms(2,3)
      by (simp add: forward_def forward_run_def Let_def)
  next
    case (Inr out)
    with assms(4) s have "seq_len out = 0" by simp
    then show ?thesis using m assms(2,3) Inr
      by (simp add: forward_def forward_run_def Let_def last_time_step_def)
  qed
qed

text \<open>The hypotheses hold for the small instance and the batch of one empty sample.\<close>

theorem C8_zero_length_fails_after_mask_witness:
  "seq_len (Tensor3 0 1 [[]]) = 0 \<and>
   (\<exists>e. forward example_engine None
          (Tensor3 0 1 [[]]) (Tensor3 0 1 [[]]) (Tensor3 0 20 [[]]) (Tensor3 0 15 [[]]) = Inl e) \<and>
   At_create_attention_mask \<in>
     set (fst (forward_run example_engine None
          (Tensor3 0 1 [[]]) (Tensor3 0 1 [[]]) (Tensor3 0 20 [[]]) (Tensor3 0 15 [[]])))"
proof -
  have 1: "feature_encoder_forward (feature_encoder example_engine) None
      (Tensor3 0 1 [[]]) (Tensor3 0 1 [[]]) (Tensor3 0 20 [[]]) (Tensor3 0 15 [[]])
      = Inr (Tensor3 0 6 [[]])"
    by (simp add: example_engine_def example_encoder_def lin_def
      feature_encoder_forward_def sequential3_def cat4_def fusion_def bind_err_def
      sequential_rows_def enumerate_eq_zip)
  have 2: "positional_encoding_forward (positional_encoding example_engine) None [5]
      (Tensor3 0 6 [[]]) = Inr (Tensor3 0 6 [[]])"
    by (simp add: example_engine_def positional_encoding_forward_def enumerate_eq_zip)
  have 3: "\<forall>out. transformer_encoder example_engine (Tensor3 0 6 [[]]) [] = Inr out \<longrightarrow>
      seq_len out = seq_len (Tensor3 0 6 [[]])"
    by (auto simp: example_engine_def)
  have 0: "seq_len (Tensor3 0 1 [[]]) = 0" by simp
  from C8_zero_length_fails_after_mask [OF 0 1 2 3] show ?thesis by simp
qed

subsection \<open>Inference step\<close>

lemma argsort_desc_mset: "mset (argsort_desc xs) = mset [0..<length xs]"
proof -
  have "map snd (zip xs [0..<length xs]) = [0..<length xs]" by simp
  then have "mset (map snd (zip xs [0..<length xs])) = mset [0..<length xs]" by (rule arg_cong)
  moreover have "mset (argsort_desc xs) = mset (map snd (zip xs [0..<length xs]))"
    unfolding argsort_desc_def by (simp only: mset_map mset_sort)
  ultimately show ?thesis by (rule trans [rotated])
qed

lemma argsort_desc_length: "length (argsort_desc xs) = length xs"
  by (simp add: argsort_desc_def)

lemma argsort_desc_set: "set (argsort_desc xs) = {0..<length xs}"
  using argsort_desc_mset [of xs] by (metis mset_eq_setD set_upt)

lemma argsort_desc_distinct: "distinct (argsort_desc xs)"
  using argsort_desc_mset [of xs] by (metis distinct_upt mset_eq_imp_distinct_iff)

lemma argsort_desc_sorted: "sorted_wrt (\<ge>) (map (\<lambda>i. xs ! i) (argsort_desc xs))"
proof -
  let ?zs = "sort_key (\<lambda>(v, i). - v) (zip xs [0..<length xs])"
  have pairs: "\<forall>p\<in>set ?zs. fst p = xs ! snd p"
    by (auto simp: set_zip)
  have "sorted (map (\<lambda>(v, i). - v) ?zs)" by (rule sorted_sort_key)
  moreover have "map (\<lambda>(v, i). - v) ?zs = map (\<lambda>i. - (xs ! i)) (argsort_desc xs)"
    unfolding argsort_desc_def using pairs by (auto simp: case_prod_beta)
  ultimately have "sorted (map uminus (map (\<lambda>i. xs ! i) (argsort_desc xs)))"
    by (simp add: comp_def)
  then show ?thesis
    by (simp add: sorted_wrt_map)
qed

lemma take_argsort_props:
  assumes "k \<le> length xs"
  shows "length (take k (argsort_desc xs)) = k"
    and "distinct (take k (argsort_desc xs))"
    and "set (take k (argsort_desc xs)) \<subseteq> {0..<length xs}"
    and "sorted_wrt (\<ge>) (map (\<lambda>i. xs ! i) (take k (argsort_desc xs)))"
    and "\<forall>a<length xs. a \<notin> set (take k (argsort_desc xs)) \<longrightarrow>
           (\<forall>b\<in>set (take k (argsort_desc xs)). xs ! a \<le> xs ! b)"
proof -
  let ?p = "argsort_desc xs"
  show "length (take k ?p) = k" using assms by (simp add: argsort_desc_length)
  show "distinct (take k ?p)" by (simp add: argsort_desc_distinct)
  show "set (take k ?p) \<subseteq> {0..<length xs}"
    using set_take_subset [of k ?p] by (simp add: argsort_desc_set)
  have srt: "sorted_wrt (\<ge>) (map (\<lambda>i. xs ! i) (take k ?p) @ map (\<lambda>i. xs ! i) (drop k ?p))"
    using argsort_desc_sorted [of xs] by (simp flip: map_append)
  then show "sorted_wrt (\<ge>) (map (\<lambda>i. xs ! i) (take k ?p))"
    by (simp add: sorted_wrt_append)
  show "\<forall>a<length xs. a \<notin> set (take k ?p) \<longrightarrow> (\<forall>b\<in>set (take k ?p). xs ! a \<le> xs ! b)"
  proof (intro allI impI ballI)
    fix a b assume a: "a < length xs" "a \<notin> set (take k ?p)" and b: "b \<in> set (take k ?p)"
    from a(1) have "a \<in> set ?p" by (simp add: argsort_desc_set)
    then have "a \<in> set (take k ?p) \<union> set (drop k ?p)" by (simp flip: set_append)
    with a(2) have "a \<in> set (drop k ?p)" by simp
    with b srt show "xs ! a \<le> xs ! b" by (auto simp: sorted_wrt_append)
  qed
qed

lemma length_softmax: "length (softmax xs) = length xs"
  by (simp add: softmax_def)

lemma head_forward_Inr:
  assumes "wf_head h" and "head_forward h tr x = Inr outputs"
  shows "\<exists>raw. map_of outputs ''raw_logits'' = Some raw \<and> ncols raw = head_num_assets h \<and>
               (\<forall>r\<in>set (rows raw). length r = head_num_assets h)"
proof -
  from assms(1) have
      w1: "wf_Sequential2 (recommendation_layers h) (head_d_model h) (head_d_model h div 2) (head_num_assets h)"
    by (simp add: wf_head_def)
  from assms(2) obtain raw where raw: "sequential2 (recommendation_layers h) tr [6] x = Inr raw"
    and m: "map_of outputs ''raw_logits'' = Some raw"
    by (auto simp: head_forward_def bind_err_def Let_def split: sum.splits)
  from raw have "raw = Tensor2 (out_features (fc2 (recommendation_layers h)))
      (sequential_rows (recommendation_layers h) tr [6] (rows x))"
    by (auto simp: sequential2_def split: if_splits)
  with w1 have "ncols raw = head_num_assets h" "\<forall>r\<in>set (rows raw). length r = head_num_assets h"
    using sequential_rows_lengths [OF w1] by (auto simp: wf_Sequential2_def)
  with m show ?thesis by blast
qed

lemma forward_Inr_head:
  "forward self tr p v t f = Inr outputs \<Longrightarrow>
   \<exists>x. head_forward (recommendation_head self) tr x = Inr outputs"
  by (auto simp: forward_def forward_run_def Let_def split: sum.splits)

lemma predict_step_unfold:
  assumes "forward self tr p v t f = Inr outputs" and "map_of outputs ''raw_logits'' = Some raw"
  shows "predict_step self tr p v t f temperature top_k =
     (if top_k < 0 \<or> int (ncols raw) < top_k then Inl RuntimeError
      else Inr \<lparr>top_k_assets =
                  map (\<lambda>r. take (nat top_k) (argsort_desc (softmax (map (\<lambda>x. x / temperature) r)))) (rows raw),
                top_k_probabilities =
                  map (\<lambda>r. map (\<lambda>i. softmax (map (\<lambda>x. x / temperature) r) ! i)
                         (take (nat top_k) (argsort_desc (softmax (map (\<lambda>x. x / temperature) r))))) (rows raw),
                confidence = map_of outputs ''confidence'',
                risk_scores = map_of outputs ''risk_scores'',
                regime_probs = map_of outputs ''regime_probs''\<rparr>)"
  using assms
  by (simp add: predict_step_def bind_err_def topk_def map_rows_def Let_def comp_def)

text \<open>
  Claim C10: for an engine with the shapes of its constructor and a temperature other than
  0, \<open>predict_step\<close> returns exactly when the forward pass returns and
  \<open>0 \<le> top_k \<le> num_assets\<close> (so it succeeds only when \<open>top_k\<close> does not exceed the asset
  count); and what it returns has, for every sample, exactly \<open>top_k\<close> distinct asset
  indices, their probabilities under the softmax of \<open>raw_logits / temperature\<close> in
  descending order, no asset outside the selection with a larger probability than one
  inside, and the confidence, risk scores and regime probabilities of the forward pass
  unchanged.
\<close>

theorem C10_predict_step:
  assumes "wf_engine self" and "temperature \<noteq> 0"
  shows
   "((\<exists>r. predict_step self tr price_data volume_data technical_data fundamental_data
             temperature top_k = Inr r) \<longleftrightarrow>
       (\<exists>outputs. forward self tr price_data volume_data technical_data fundamental_data = Inr outputs)
       \<and> 0 \<le> top_k \<and> top_k \<le> int (num_assets self)) \<and>
    (\<forall>outputs r.
       forward self tr price_data volume_data technical_data fundamental_data = Inr outputs \<and>
       predict_step self tr price_data volume_data technical_data fundamental_data
         temperature top_k = Inr r \<longrightarrow>
       confidence r = map_of outputs ''confidence'' \<and>
       risk_scores r = map_of outputs ''risk_scores'' \<and>
       regime_probs r = map_of outputs ''regime_probs'' \<and>
       (\<exists>raw_logits. map_of outputs ''raw_logits'' = Some raw_logits \<and>
          length (top_k_assets r) = length (rows raw_logits) \<and>
          length (top_k_probabilities r) = length (rows raw_logits) \<and>
          (\<forall>i<length (rows raw_logits).
             length (top_k_assets r ! i) = nat top_k \<and>
             distinct (top_k_assets r ! i) \<and>
             (\<forall>a\<in>set (top_k_assets r ! i). a < num_assets self) \<and>
             top_k_probabilities r ! i =
               map (\<lambda>a. softmax (map (\<lambda>x. x / temperature) (rows raw_logits ! i)) ! a)
                   (top_k_assets r ! i) \<and>
             sorted_wrt (\<ge>) (top_k_probabilities r ! i) \<and>
             (\<forall>a<num_assets self. a \<notin> set (top_k_assets r ! i) \<longrightarrow>
                (\<forall>b\<in>set (top_k_assets r ! i).
                   softmax (map (\<lambda>x. x / temperature) (rows raw_logits ! i)) ! a
                   \<le> softmax (map (\<lambda>x. x / temperature) (rows raw_logits ! i)) ! b)))))"
proof -
  let ?fwd = "forward self tr price_data volume_data technical_data fundamental_data"
  let ?ps = "predict_step self tr price_data volume_data technical_data fundamental_data temperature top_k"
  from assms(1) have wfh: "wf_head (recommendation_head self)"
    and na: "head_num_assets (recommendation_head self) = num_assets self"
    by (simp_all add: wf_engine_def)
  have raw_of: "\<exists>raw. map_of outputs ''raw_logits'' = Some raw \<and> ncols raw = num_assets self \<and>
               (\<forall>r\<in>set (rows raw). length r = num_assets self)"
    if "?fwd = Inr outputs" for outputs
    using forward_Inr_head [OF that] head_forward_Inr [OF wfh] na by auto
  have A: "(\<exists>r. ?ps = Inr r) \<longleftrightarrow> (\<exists>outputs. ?fwd = Inr outputs) \<and> 0 \<le> top_k \<and> top_k \<le> int (num_assets self)"
  proof (cases ?fwd)
    case (Inl e)
    then show ?thesis by (simp add: predict_step_def bind_err_def)
  next
    case (Inr outputs)
    from raw_of [OF Inr] obtain raw where raw: "map_of outputs ''raw_logits'' = Some raw"
      and nc: "ncols raw = num_assets self" by blast
    show ?thesis
      unfolding predict_step_unfold [OF Inr raw] using Inr nc by auto
  qed
  have B: "confidence r = map_of outputs ''confidence'' \<and>
       risk_scores r = map_of outputs ''risk_scores'' \<and>
       regime_probs r = map_of outputs ''regime_probs'' \<and>
       (\<exists>raw_logits. map_of outputs ''raw_logits'' = Some raw_logits \<and>
          length (top_k_assets r) = length (rows raw_logits) \<and>
          length (top_k_probabilities r) = length (rows raw_logits) \<and>
          (\<forall>i<length (rows raw_logits).
             length (top_k_assets r ! i) = nat top_k \<and>
             distinct (top_k_assets r ! i) \<and>
             (\<forall>a\<in>set (top_k_assets r ! i). a < num_assets self) \<and>
             top_k_probabilities r ! i =
               map (\<lambda>a. softmax (map (\<lambda>x. x / temperature) (rows raw_logits ! i)) ! a)
                   (top_k_assets r ! i) \<and>
             sorted_wrt (\<ge>) (top_k_probabilities r ! i) \<and>
             (\<forall>a<num_assets self. a \<notin> set (top_k_assets r ! i) \<longrightarrow>
                (\<forall>b\<in>set (top_k_assets r ! i).
                   softmax (map (\<lambda>x. x / temperature) (rows raw_logits ! i)) ! a
                   \<le> softmax (map (\<lambda>x. x / temperature) (rows raw_logits ! i)) ! b))))"
    if fwd: "?fwd = Inr outputs" and ps: "?ps = Inr r" for outputs r
  proof -
    from raw_of [OF fwd] obtain raw where raw: "map_of outputs ''raw_logits'' = Some raw"
      and nc: "ncols raw = num_assets self"
      and len: "\<forall>r\<in>set (rows raw). length r = num_assets self" by blast
    from ps have k: "0 \<le> top_k" "top_k \<le> int (num_assets self)"
      and r: "r = \<lparr>top_k_assets =
                  map (\<lambda>r. take (nat top_k) (argsort_desc (softmax (map (\<lambda>x. x / temperature) r)))) (rows raw),
                top_k_probabilities =
                  map (\<lambda>r. map (\<lambda>i. softmax (map (\<lambda>x. x / temperature) r) ! i)
                         (take (nat top_k) (argsort_desc (softmax (map (\<lambda>x. x / temperature) r))))) (rows raw),
                confidence = map_of outputs ''confidence'',
                risk_scores = map_of outputs ''risk_scores'',
                regime_probs = map_of outputs ''regime_probs''\<rparr>"
      unfolding predict_step_unfold [OF fwd raw] using nc by (auto split: if_splits)
    have row: "length (top_k_assets r ! i) = nat top_k \<and>
             distinct (top_k_assets r ! i) \<and>
             (\<forall>a\<in>set (top_k_assets r ! i). a < num_assets self) \<and>
             top_k_probabilities r ! i =
               map (\<lambda>a. softmax (map (\<lambda>x. x / temperature) (rows raw ! i)) ! a)
                   (top_k_assets r ! i) \<and>
             sorted_wrt (\<ge>) (top_k_probabilities r ! i) \<and>
             (\<forall>a<num_assets self. a \<notin> set (top_k_assets r ! i) \<longrightarrow>
                (\<forall>b\<in>set (top_k_assets r ! i).
                   softmax (map (\<lambda>x. x / temperature) (rows raw ! i)) ! a
                   \<le> softmax (map (\<lambda>x. x / temperature) (rows raw ! i)) ! b))"
      if i: "i < length (rows raw)" for i
    proof -
      let ?pr = "softmax (map (\<lambda>x. x / temperature) (rows raw ! i))"
      from i len have "length (rows raw ! i) = num_assets self" by simp
      then have lp: "length ?pr = num_assets self" by (simp add: length_softmax)
      with k have kk: "nat top_k \<le> length ?pr" by simp
      note P = take_argsort_props [OF kk]
      show ?thesis using i P lp unfolding r by (auto simp: subset_iff)
    qed
    have c: "confidence r = map_of outputs ''confidence''" "risk_scores r = map_of outputs ''risk_scores''"
      "regime_probs r = map_of outputs ''regime_probs''"
      by (simp_all add: r)
    have l: "length (top_k_assets r) = length (rows raw)"
      "length (top_k_probabilities r) = length (rows raw)"
      by (simp_all add: r)
    from raw l row show ?thesis unfolding c by blast
  qed
  show ?thesis using A B by blast
qed

lemma wf_example_engine: "wf_engine example_engine"
  using wf_example_head
  by (simp add: wf_engine_def example_engine_def wf_feature_encoder_def example_encoder_def
      wf_Sequential2_def wf_Linear_def lin_def example_head_def)

lemma example_forward:
  "forward example_engine None (Tensor3 1 1 [[[0]]]) (Tensor3 1 1 [[[0]]])
     (Tensor3 1 20 [[replicate 20 0]]) (Tensor3 1 15 [[replicate 15 0]])
   = head_forward example_head None (Tensor2 6 [[0, 1, 0, 1, 0, 1]])"
  by (simp add: forward_def forward_run_def example_engine_def example_encoder_def lin_def
      feature_encoder_forward_def sequential3_def cat4_def fusion_def bind_err_def
      positional_encoding_forward_def last_time_step_def create_attention_mask_def
      sequential_rows_def sequential_vec_def linear_vec_def dropout_def relu_def pe_entry_def
      enumerate_eq_zip upt_conv_Cons sum_list_replicate)

text \<open>The small instance on a batch of one sample with one time step, temperature 0.8, \<open>top_k = 1\<close>.\<close>

theorem C10_predict_step_witness:
  "wf_engine example_engine \<and> (0.8::real) \<noteq> 0 \<and>
   (\<exists>outputs r raw_logits.
      forward example_engine None (Tensor3 1 1 [[[0]]]) (Tensor3 1 1 [[[0]]])
        (Tensor3 1 20 [[replicate 20 0]]) (Tensor3 1 15 [[replicate 15 0]]) = Inr outputs \<and>
      predict_step example_engine None (Tensor3 1 1 [[[0]]]) (Tensor3 1 1 [[[0]]])
        (Tensor3 1 20 [[replicate 20 0]]) (Tensor3 1 15 [[replicate 15 0]]) 0.8 1 = Inr r \<and>
      confidence r = map_of outputs ''confidence'' \<and>
      map_of outputs ''raw_logits'' = Some raw_logits \<and>
      length (top_k_assets r) = length (rows raw_logits))"
proof -
  let ?ps = "predict_step example_engine None (Tensor3 1 1 [[[0]]]) (Tensor3 1 1 [[[0]]])
        (Tensor3 1 20 [[replicate 20 0]]) (Tensor3 1 15 [[replicate 15 0]]) 0.8 1"
  have t: "(0.8::real) \<noteq> 0" by simp
  have "ncols (Tensor2 6 [[0, 1, 0, 1, 0, 1]]) = head_d_model example_head"
    by (simp add: example_head_def)
  from head_forward_ok [OF wf_example_head this, of None]
  obtain outputs where fwd: "forward example_engine None (Tensor3 1 1 [[[0]]]) (Tensor3 1 1 [[[0]]])
        (Tensor3 1 20 [[replicate 20 0]]) (Tensor3 1 15 [[replicate 15 0]]) = Inr outputs"
    unfolding example_forward by blast
  have k: "(0::int) \<le> 1 \<and> 1 \<le> int (num_assets example_engine)"
    by (simp add: example_engine_def)
  note inst = C10_predict_step [OF wf_example_engine t, of None "Tensor3 1 1 [[[0]]]" "Tensor3 1 1 [[[0]]]"
      "Tensor3 1 20 [[replicate 20 0]]" "Tensor3 1 15 [[replicate 15 0]]" 1]
  from inst fwd k obtain r where ps: "?ps = Inr r" by blast
  from inst fwd ps obtain raw_logits where "confidence r = map_of outputs ''confidence''"
    "map_of outputs ''raw_logits'' = Some raw_logits"
    "length (top_k_assets r) = length (rows raw_logits)" by blast
  with fwd ps wf_example_engine t show ?thesis by blast
qed

end
